theory Spec2Isabelle
  imports Complex_Main
begin

section \<open>Live pipeline: building channel rules from the configuration document\<close>

text \<open>
  The Go package \<^verbatim>\<open>pipeline\<close> declares \<^verbatim>\<open>FileStorage\<close>, the configuration node
  structs and the four extractors \<^verbatim>\<open>extractConverter\<close>, \<^verbatim>\<open>extractProcessor\<close>,
  \<^verbatim>\<open>extractConditionChecker\<close>, \<^verbatim>\<open>extractOutputter\<close>, together with
  \<^verbatim>\<open>getRemoteWriteConfig\<close> and \<^verbatim>\<open>ListChannelRules\<close>. Pointers that may be nil are
  options, a Go slice is a list (the nil slice is the empty list), and a method on
  \<^verbatim>\<open>*FileStorage\<close> takes the storage as its first argument. A field name that several
  structs share (\<^verbatim>\<open>Type\<close>, \<^verbatim>\<open>UID\<close>, \<^verbatim>\<open>Pattern\<close>, \<^verbatim>\<open>Settings\<close>, the stage fields)
  carries a prefix for its struct.
\<close>

subsection \<open>Leaf configurations and collaborators declared outside the files at hand\<close>

text \<open>
  Modelled from the spec: the leaf payload structs (\<^verbatim>\<open>AutoJsonConverterConfig\<close>,
  \<^verbatim>\<open>ExactJsonConverterConfig\<close>, \<^verbatim>\<open>AutoInfluxConverterConfig\<close>,
  \<^verbatim>\<open>JsonFrameConverterConfig\<close>, \<^verbatim>\<open>DropFieldsProcessorConfig\<close>,
  \<^verbatim>\<open>KeepFieldsProcessorConfig\<close>, \<^verbatim>\<open>RedirectOutputConfig\<close>,
  \<^verbatim>\<open>ThresholdOutputConfig\<close>, \<^verbatim>\<open>ChangeLogOutputConfig\<close>, \<^verbatim>\<open>RemoteWriteConfig\<close>)
  and the string enumerations \<^verbatim>\<open>ConditionType\<close> and \<^verbatim>\<open>NumberCompareOp\<close> are declared
  in files that are not present. The spec calls them type-specific fields and opaque backend
  configuration; the extractors only copy them into the constructor calls, so each is
  carried as the text of its JSON value.
\<close>

type_synonym AutoJsonConverterConfig = string
type_synonym ExactJsonConverterConfig = string
type_synonym AutoInfluxConverterConfig = string
type_synonym JsonFrameConverterConfig = string
type_synonym DropFieldsProcessorConfig = string
type_synonym KeepFieldsProcessorConfig = string
type_synonym RedirectOutputConfig = string
type_synonym ThresholdOutputConfig = string
type_synonym ChangeLogOutputConfig = string
type_synonym RemoteWriteConfig = string
type_synonym ConditionType = string
type_synonym NumberCompareOp = string

text \<open>
  The pointers \<^verbatim>\<open>*centrifuge.Node\<close>, \<^verbatim>\<open>*managedstream.Runner\<close> and \<^verbatim>\<open>*FrameStorage\<close>
  held by the storage are only handed on to constructors: an address, 0 for nil.
\<close>

type_synonym pointer = nat

subsection \<open>Configuration structs\<close>

datatype ManagedStreamOutputConfig = ManagedStreamOutputConfig

record ConverterConfig =
  conv_Type :: string
  conv_AutoJsonConverterConfig :: "AutoJsonConverterConfig option"
  conv_ExactJsonConverterConfig :: "ExactJsonConverterConfig option"
  conv_AutoInfluxConverterConfig :: "AutoInfluxConverterConfig option"
  conv_JsonFrameConverterConfig :: "JsonFrameConverterConfig option"

datatype ProcessorConfig =
  ProcessorConfig
    (proc_Type: string)
    (proc_DropFieldsProcessorConfig: "DropFieldsProcessorConfig option")
    (proc_KeepFieldsProcessorConfig: "KeepFieldsProcessorConfig option")
    (proc_MultipleProcessorConfig: "MultipleProcessorConfig option")
and MultipleProcessorConfig =
  MultipleProcessorConfig (Processors: "ProcessorConfig list")

text \<open>
  The \<^verbatim>\<open>float64\<close> field \<^verbatim>\<open>Value\<close> is read from the JSON number and only copied into
  the constructor call; it is carried as the number itself.
\<close>

record NumberCompareConditionConfig =
  FieldName :: string
  Op :: NumberCompareOp
  Value :: real

datatype ConditionCheckerConfig =
  ConditionCheckerConfig
    (cond_Type: string)
    (cond_MultipleConditionCheckerConfig: "MultipleConditionCheckerConfig option")
    (cond_NumberCompareConditionConfig: "NumberCompareConditionConfig option")
and MultipleConditionCheckerConfig =
  MultipleConditionCheckerConfig (multi_Type: ConditionType) (Conditions: "ConditionCheckerConfig list")

record RemoteWriteOutputConfig =
  rw_UID :: string

datatype OutputterConfig =
  OutputterConfig
    (out_Type: string)
    (out_ManagedStreamConfig: "ManagedStreamOutputConfig option")
    (out_MultipleOutputterConfig: "MultipleOutputterConfig option")
    (out_RedirectOutputConfig: "RedirectOutputConfig option")
    (out_ConditionalOutputConfig: "ConditionalOutputConfig option")
    (out_ThresholdOutputConfig: "ThresholdOutputConfig option")
    (out_RemoteWriteOutputConfig: "RemoteWriteOutputConfig option")
    (out_ChangeLogOutputConfig: "ChangeLogOutputConfig option")
and MultipleOutputterConfig =
  MultipleOutputterConfig (Outputters: "OutputterConfig list")
and ConditionalOutputConfig =
  ConditionalOutputConfig
    (conditional_Condition: "ConditionCheckerConfig option")
    (conditional_Outputter: "OutputterConfig option")

record ChannelRuleSettings =
  set_Converter :: "ConverterConfig option"
  set_Processor :: "ProcessorConfig option"
  set_Outputter :: "OutputterConfig option"

record ChannelRule =
  rule_Pattern :: string
  rule_Settings :: ChannelRuleSettings

record RemoteWriteBackend =
  UID :: string
  Settings :: "RemoteWriteConfig option"

record ChannelRules =
  Rules :: "ChannelRule list"
  RemoteWriteBackends :: "RemoteWriteBackend list"

record FileStorage =
  Node :: pointer
  ManagedStream :: pointer
  FrameStorage :: pointer
  remoteWriteBackends :: "RemoteWriteBackend list"

subsection \<open>Built stages\<close>

text \<open>
  Modelled from the spec: the constructors \<^verbatim>\<open>NewAutoJsonConverter\<close>, ...,
  \<^verbatim>\<open>NewChangeLogOutput\<close> and the struct \<^verbatim>\<open>LiveChannelRule\<close> are declared in files that
  are not present. A built stage is the record of the constructor call that made it, with
  the arguments of the call; a Go interface value that may be nil is an option.
\<close>

datatype Converter =
  NewAutoJsonConverter AutoJsonConverterConfig
| NewExactJsonConverter ExactJsonConverterConfig
| NewJsonFrameConverter JsonFrameConverterConfig
| NewAutoInfluxConverter AutoInfluxConverterConfig

datatype Processor =
  NewDropFieldsProcessor DropFieldsProcessorConfig
| NewKeepFieldsProcessor KeepFieldsProcessorConfig
| NewMultipleProcessor "Processor option list"

datatype ConditionChecker =
  NewNumberCompareCondition string NumberCompareOp real
| NewMultipleConditionChecker ConditionType "ConditionChecker option list"

datatype Outputter =
  NewRedirectOutput RedirectOutputConfig
| NewMultipleOutputter "Outputter option list"
| NewManagedStreamOutput pointer
| NewLocalSubscribersOutput pointer
| NewConditionalOutput "ConditionChecker option" "Outputter option"
| NewThresholdOutput pointer ThresholdOutputConfig
| NewRemoteWriteOutput RemoteWriteConfig
| NewChangeLogOutput pointer ChangeLogOutputConfig

record LiveChannelRule =
  Pattern :: string
  Converter :: "Converter option"
  Processor :: "Processor option"
  Outputter :: "Outputter option"

subsection \<open>Errors and panics\<close>

text \<open>
  Every \<^verbatim>\<open>fmt.Errorf\<close> of the package is a constructor carrying the formatted argument;
  \<open>Error_text\<close> gives the message. \<open>JSONError\<close> is an error of \<^verbatim>\<open>json.Unmarshal\<close>.
  Dereferencing a nil pointer does not return: it is the panic \<open>NilPointerDereference\<close>,
  which every caller hands on unchanged.
\<close>

datatype error =
  MissingConfiguration string
| UnknownConverterType string
| UnknownProcessorType string
| UnknownConditionType string
| UnknownOutputType string
| UnknownRemoteWriteBackendUid string
| JSONError string

fun Error_text :: "error \<Rightarrow> string" where
  "Error_text (MissingConfiguration t) = ''missing configuration for '' @ t"
| "Error_text (UnknownConverterType t) = ''unknown converter type: '' @ t"
| "Error_text (UnknownProcessorType t) = ''unknown processor type: '' @ t"
| "Error_text (UnknownConditionType t) = ''unknown condition type: '' @ t"
| "Error_text (UnknownOutputType t) = ''unknown output type: '' @ t"
| "Error_text (UnknownRemoteWriteBackendUid u) = ''unknown remote write backend uid: '' @ u"
| "Error_text (JSONError m) = m"

datatype panic = NilPointerDereference

datatype failure = Err error | Panic panic

subsection \<open>The extractors\<close>

fun extractConverter :: "FileStorage \<Rightarrow> ConverterConfig option \<Rightarrow> failure + Converter option" where
  "extractConverter f None = Inr None"
| "extractConverter f (Some config) =
    (if conv_Type config = ''jsonAuto'' then
       (case conv_AutoJsonConverterConfig config of
          None \<Rightarrow> Inl (Err (MissingConfiguration (conv_Type config)))
        | Some c \<Rightarrow> Inr (Some (NewAutoJsonConverter c)))
     else if conv_Type config = ''jsonExact'' then
       (case conv_ExactJsonConverterConfig config of
          None \<Rightarrow> Inl (Err (MissingConfiguration (conv_Type config)))
        | Some c \<Rightarrow> Inr (Some (NewExactJsonConverter c)))
     else if conv_Type config = ''jsonFrame'' then
       (case conv_JsonFrameConverterConfig config of
          None \<Rightarrow> Inl (Err (MissingConfiguration (conv_Type config)))
        | Some c \<Rightarrow> Inr (Some (NewJsonFrameConverter c)))
     else if conv_Type config = ''influxAuto'' then
       (case conv_AutoInfluxConverterConfig config of
          None \<Rightarrow> Inl (Err (MissingConfiguration (conv_Type config)))
        | Some c \<Rightarrow> Inr (Some (NewAutoInfluxConverter c)))
     else Inl (Err (UnknownConverterType (conv_Type config))))"

text \<open>
  The \<^verbatim>\<open>for ... range\<close> loop of a \<^verbatim>\<open>multiple\<close> node is the second function of each
  pair: it walks the children from the left, appends each built child to the slice and
  returns at the first child that fails.
\<close>

fun extractProcessor :: "FileStorage \<Rightarrow> ProcessorConfig option \<Rightarrow> failure + Processor option"
and extractProcessor_range ::
  "FileStorage \<Rightarrow> ProcessorConfig list \<Rightarrow> Processor option list \<Rightarrow> failure + Processor option list"
where
  "extractProcessor f None = Inr None"
| "extractProcessor f (Some (ProcessorConfig ty dropFields keepFields multiple)) =
    (if ty = ''dropFields'' then
       (case dropFields of
          None \<Rightarrow> Inl (Err (MissingConfiguration ty))
        | Some c \<Rightarrow> Inr (Some (NewDropFieldsProcessor c)))
     else if ty = ''keepFields'' then
       (case keepFields of
          None \<Rightarrow> Inl (Err (MissingConfiguration ty))
        | Some c \<Rightarrow> Inr (Some (NewKeepFieldsProcessor c)))
     else if ty = ''multiple'' then
       (case multiple of
          None \<Rightarrow> Inl (Err (MissingConfiguration ty))
        | Some (MultipleProcessorConfig confs) \<Rightarrow>
            (case extractProcessor_range f confs [] of
               Inl err \<Rightarrow> Inl err
             | Inr processors \<Rightarrow> Inr (Some (NewMultipleProcessor processors))))
     else Inl (Err (UnknownProcessorType ty)))"
| "extractProcessor_range f [] processors = Inr processors"
| "extractProcessor_range f (outConf # rest) processors =
    (case extractProcessor f (Some outConf) of
       Inl err \<Rightarrow> Inl err
     | Inr proc \<Rightarrow> extractProcessor_range f rest (processors @ [proc]))"

fun extractConditionChecker ::
  "FileStorage \<Rightarrow> ConditionCheckerConfig option \<Rightarrow> failure + ConditionChecker option"
and extractConditionChecker_range ::
  "FileStorage \<Rightarrow> ConditionCheckerConfig list \<Rightarrow> ConditionChecker option list
     \<Rightarrow> failure + ConditionChecker option list"
where
  "extractConditionChecker f None = Inr None"
| "extractConditionChecker f (Some (ConditionCheckerConfig ty multiple numberCompare)) =
    (if ty = ''numberCompare'' then
       (case numberCompare of
          None \<Rightarrow> Inl (Err (MissingConfiguration ty))
        | Some c \<Rightarrow> Inr (Some (NewNumberCompareCondition (FieldName c) (Op c) (Value c))))
     else if ty = ''multiple'' then
       (case multiple of
          None \<Rightarrow> Inl (Err (MissingConfiguration ty))
        | Some (MultipleConditionCheckerConfig mty confs) \<Rightarrow>
            (case extractConditionChecker_range f confs [] of
               Inl err \<Rightarrow> Inl err
             | Inr conditions \<Rightarrow> Inr (Some (NewMultipleConditionChecker mty conditions))))
     else Inl (Err (UnknownConditionType ty)))"
| "extractConditionChecker_range f [] conditions = Inr conditions"
| "extractConditionChecker_range f (outConf # rest) conditions =
    (case extractConditionChecker f (Some outConf) of
       Inl err \<Rightarrow> Inl err
     | Inr cond \<Rightarrow> extractConditionChecker_range f rest (conditions @ [cond]))"

fun getRemoteWriteConfig_range ::
  "RemoteWriteBackend list \<Rightarrow> string \<Rightarrow> RemoteWriteConfig option \<times> bool" where
  "getRemoteWriteConfig_range [] uid = (None, False)"
| "getRemoteWriteConfig_range (rwb # rest) uid =
    (if UID rwb = uid then (Settings rwb, True) else getRemoteWriteConfig_range rest uid)"

definition getRemoteWriteConfig :: "FileStorage \<Rightarrow> string \<Rightarrow> RemoteWriteConfig option \<times> bool" where
  "getRemoteWriteConfig f uid = getRemoteWriteConfig_range (remoteWriteBackends f) uid"

fun extractOutputter :: "FileStorage \<Rightarrow> OutputterConfig option \<Rightarrow> failure + Outputter option"
and extractOutputter_range ::
  "FileStorage \<Rightarrow> OutputterConfig list \<Rightarrow> Outputter option list \<Rightarrow> failure + Outputter option list"
where
  "extractOutputter f None = Inr None"
| "extractOutputter f
     (Some (OutputterConfig ty managedStream multiple redirect conditional threshold remoteWrite changeLog)) =
    (if ty = ''redirect'' then
       (case redirect of
          None \<Rightarrow> Inl (Err (MissingConfiguration ty))
        | Some c \<Rightarrow> Inr (Some (NewRedirectOutput c)))
     else if ty = ''multiple'' then
       (case multiple of
          None \<Rightarrow> Inl (Err (MissingConfiguration ty))
        | Some (MultipleOutputterConfig confs) \<Rightarrow>
            (case extractOutputter_range f confs [] of
               Inl err \<Rightarrow> Inl err
             | Inr outputters \<Rightarrow> Inr (Some (NewMultipleOutputter outputters))))
     else if ty = ''ManagedStream'' then Inr (Some (NewManagedStreamOutput (ManagedStream f)))
     else if ty = ''localSubscribers'' then Inr (Some (NewLocalSubscribersOutput (Node f)))
     else if ty = ''conditional'' then
       (case conditional of
          None \<Rightarrow> Inl (Err (MissingConfiguration ty))
        | Some (ConditionalOutputConfig cond out) \<Rightarrow>
            (case extractConditionChecker f cond of
               Inl err \<Rightarrow> Inl err
             | Inr condition \<Rightarrow>
                 (case extractOutputter f out of
                    Inl err \<Rightarrow> Inl err
                  | Inr outputter \<Rightarrow> Inr (Some (NewConditionalOutput condition outputter)))))
     else if ty = ''threshold'' then
       (case threshold of
          None \<Rightarrow> Inl (Err (MissingConfiguration ty))
        | Some c \<Rightarrow> Inr (Some (NewThresholdOutput (FrameStorage f) c)))
     else if ty = ''remoteWrite'' then
       (case remoteWrite of
          None \<Rightarrow> Inl (Err (MissingConfiguration ty))
        | Some c \<Rightarrow>
            (case getRemoteWriteConfig f (rw_UID c) of
               (remoteWriteConfig, ok) \<Rightarrow>
                 if \<not> ok then Inl (Err (UnknownRemoteWriteBackendUid (rw_UID c)))
                 else (case remoteWriteConfig of
                         None \<Rightarrow> Inl (Panic NilPointerDereference)
                       | Some rwc \<Rightarrow> Inr (Some (NewRemoteWriteOutput rwc)))))
     else if ty = ''changeLog'' then
       (case changeLog of
          None \<Rightarrow> Inl (Err (MissingConfiguration ty))
        | Some c \<Rightarrow> Inr (Some (NewChangeLogOutput (FrameStorage f) c)))
     else Inl (Err (UnknownOutputType ty)))"
| "extractOutputter_range f [] outputters = Inr outputters"
| "extractOutputter_range f (outConf # rest) outputters =
    (case extractOutputter f (Some outConf) of
       Inl err \<Rightarrow> Inl err
     | Inr outputter \<Rightarrow> extractOutputter_range f rest (outputters @ [outputter]))"

subsection \<open>Loading the rules\<close>

text \<open>
  A call either returns its pair of results or panics. \<^verbatim>\<open>return nil, err\<close> drops the
  rules built so far; a panic inside an extractor leaves the function without a result.
\<close>

datatype 'a outcome = Return 'a | Panicked panic

fun return_nil :: "failure \<Rightarrow> (LiveChannelRule list \<times> error option) outcome" where
  "return_nil (Err err) = Return ([], Some err)"
| "return_nil (Panic p) = Panicked p"

fun ListChannelRules_range ::
  "FileStorage \<Rightarrow> ChannelRule list \<Rightarrow> LiveChannelRule list
     \<Rightarrow> (LiveChannelRule list \<times> error option) outcome" where
  "ListChannelRules_range f [] rules = Return (rules, None)"
| "ListChannelRules_range f (ruleConfig # rest) rules =
    (case extractConverter f (set_Converter (rule_Settings ruleConfig)) of
       Inl err \<Rightarrow> return_nil err
     | Inr converter \<Rightarrow>
        (case extractProcessor f (set_Processor (rule_Settings ruleConfig)) of
           Inl err \<Rightarrow> return_nil err
         | Inr processor \<Rightarrow>
            (case extractOutputter f (set_Outputter (rule_Settings ruleConfig)) of
               Inl err \<Rightarrow> return_nil err
             | Inr outputter \<Rightarrow>
                 ListChannelRules_range f rest
                   (rules @ [\<lparr>Pattern = rule_Pattern ruleConfig, Converter = converter,
                              Processor = processor, Outputter = outputter\<rparr>]))))"

text \<open>
  \<^verbatim>\<open>ListChannelRules\<close> reads the file named by the environment (the error of
  \<^verbatim>\<open>ioutil.ReadFile\<close> is discarded, so \<open>ruleBytes\<close> is whatever was read) and decodes it
  with \<^verbatim>\<open>json.Unmarshal\<close>, a function of the Go standard library taken here as the
  parameter \<open>Unmarshal\<close>. The storage is returned with the result, since the method
  assigns \<^verbatim>\<open>f.remoteWriteBackends\<close>.
\<close>

definition ListChannelRules ::
  "FileStorage \<Rightarrow> (string \<Rightarrow> error + ChannelRules) \<Rightarrow> string
     \<Rightarrow> (LiveChannelRule list \<times> error option) outcome \<times> FileStorage" where
  "ListChannelRules f Unmarshal ruleBytes =
    (case Unmarshal ruleBytes of
       Inl err \<Rightarrow> (Return ([], Some err), f)
     | Inr channelRules \<Rightarrow>
        (let f' = f\<lparr>remoteWriteBackends := RemoteWriteBackends channelRules\<rparr>
         in (ListChannelRules_range f' (Rules channelRules) [], f')))"

subsection \<open>The configuration tree in build order\<close>

text \<open>
  The discriminators each kind of stage recognises, as the configuration grammar lists
  them.
\<close>

definition converter_types :: "string list" where
  "converter_types = [''jsonAuto'', ''jsonExact'', ''jsonFrame'', ''influxAuto'']"

definition processor_types :: "string list" where
  "processor_types = [''dropFields'', ''keepFields'', ''multiple'']"

definition condition_types :: "string list" where
  "condition_types = [''numberCompare'', ''multiple'']"

definition outputter_types :: "string list" where
  "outputter_types = [''ManagedStream'', ''localSubscribers'', ''redirect'', ''multiple'',
     ''conditional'', ''threshold'', ''remoteWrite'', ''changeLog'']"

datatype ConfigNode =
  ConverterNode ConverterConfig
| ProcessorNode ProcessorConfig
| ConditionCheckerNode ConditionCheckerConfig
| OutputterNode OutputterConfig

text \<open>
  The nodes of a tree in the order in which the build reaches them when nothing fails: a
  node, then its children from the left. A child counts only under the payload its
  parent's \<open>type\<close> selects: the children of a \<^verbatim>\<open>multiple\<close> node, and the condition and
  then the outputter of a \<^verbatim>\<open>conditional\<close> node. The extractors never look into a payload
  of another type.
\<close>

fun processor_nodes :: "ProcessorConfig \<Rightarrow> ConfigNode list"
and processor_list_nodes :: "ProcessorConfig list \<Rightarrow> ConfigNode list" where
  "processor_nodes (ProcessorConfig ty dropFields keepFields multiple) =
     ProcessorNode (ProcessorConfig ty dropFields keepFields multiple) #
     (if ty = ''multiple'' then
        (case multiple of None \<Rightarrow> [] | Some (MultipleProcessorConfig confs) \<Rightarrow> processor_list_nodes confs)
      else [])"
| "processor_list_nodes [] = []"
| "processor_list_nodes (c # cs) = processor_nodes c @ processor_list_nodes cs"

fun condition_nodes :: "ConditionCheckerConfig \<Rightarrow> ConfigNode list"
and condition_list_nodes :: "ConditionCheckerConfig list \<Rightarrow> ConfigNode list" where
  "condition_nodes (ConditionCheckerConfig ty multiple numberCompare) =
     ConditionCheckerNode (ConditionCheckerConfig ty multiple numberCompare) #
     (if ty = ''multiple'' then
        (case multiple of
           None \<Rightarrow> []
         | Some (MultipleConditionCheckerConfig mty confs) \<Rightarrow> condition_list_nodes confs)
      else [])"
| "condition_list_nodes [] = []"
| "condition_list_nodes (c # cs) = condition_nodes c @ condition_list_nodes cs"

fun outputter_nodes :: "OutputterConfig \<Rightarrow> ConfigNode list"
and outputter_list_nodes :: "OutputterConfig list \<Rightarrow> ConfigNode list" where
  "outputter_nodes
     (OutputterConfig ty managedStream multiple redirect conditional threshold remoteWrite changeLog) =
     OutputterNode
       (OutputterConfig ty managedStream multiple redirect conditional threshold remoteWrite changeLog) #
     (if ty = ''multiple'' then
        (case multiple of None \<Rightarrow> [] | Some (MultipleOutputterConfig confs) \<Rightarrow> outputter_list_nodes confs)
      else if ty = ''conditional'' then
        (case conditional of
           None \<Rightarrow> []
         | Some (ConditionalOutputConfig cond out) \<Rightarrow>
             (case cond of None \<Rightarrow> [] | Some c \<Rightarrow> condition_nodes c) @
             (case out of None \<Rightarrow> [] | Some c \<Rightarrow> outputter_nodes c))
      else [])"
| "outputter_list_nodes [] = []"
| "outputter_list_nodes (c # cs) = outputter_nodes c @ outputter_list_nodes cs"

definition rule_nodes :: "ChannelRule \<Rightarrow> ConfigNode list" where
  "rule_nodes r =
     (case set_Converter (rule_Settings r) of None \<Rightarrow> [] | Some c \<Rightarrow> [ConverterNode c]) @
     (case set_Processor (rule_Settings r) of None \<Rightarrow> [] | Some c \<Rightarrow> processor_nodes c) @
     (case set_Outputter (rule_Settings r) of None \<Rightarrow> [] | Some c \<Rightarrow> outputter_nodes c)"

definition document_nodes :: "ChannelRules \<Rightarrow> ConfigNode list" where
  "document_nodes doc = concat (map rule_nodes (Rules doc))"

text \<open>The \<open>type\<close> of a node, and whether it is none of its kind's discriminators.\<close>

fun node_type :: "ConfigNode \<Rightarrow> string" where
  "node_type (ConverterNode c) = conv_Type c"
| "node_type (ProcessorNode c) = proc_Type c"
| "node_type (ConditionCheckerNode c) = cond_Type c"
| "node_type (OutputterNode c) = out_Type c"

fun known_types :: "ConfigNode \<Rightarrow> string list" where
  "known_types (ConverterNode c) = converter_types"
| "known_types (ProcessorNode c) = processor_types"
| "known_types (ConditionCheckerNode c) = condition_types"
| "known_types (OutputterNode c) = outputter_types"

definition unknown_type :: "ConfigNode \<Rightarrow> bool" where
  "unknown_type n = (node_type n \<notin> set (known_types n))"

fun unknown_type_error :: "ConfigNode \<Rightarrow> error" where
  "unknown_type_error (ConverterNode c) = UnknownConverterType (conv_Type c)"
| "unknown_type_error (ProcessorNode c) = UnknownProcessorType (proc_Type c)"
| "unknown_type_error (ConditionCheckerNode c) = UnknownConditionType (cond_Type c)"
| "unknown_type_error (OutputterNode c) = UnknownOutputType (out_Type c)"

text \<open>
  The payload field of a node whose JSON key is the node's \<open>type\<close> is absent. The struct
  \<^verbatim>\<open>OutputterConfig\<close> has the field \<^verbatim>\<open>ManagedStream\<close> and no field
  \<^verbatim>\<open>localSubscribers\<close>, so that payload is always absent.
\<close>

fun payload_absent :: "ConfigNode \<Rightarrow> bool" where
  "payload_absent (ConverterNode c) =
     (conv_Type c = ''jsonAuto'' \<and> conv_AutoJsonConverterConfig c = None \<or>
      conv_Type c = ''jsonExact'' \<and> conv_ExactJsonConverterConfig c = None \<or>
      conv_Type c = ''jsonFrame'' \<and> conv_JsonFrameConverterConfig c = None \<or>
      conv_Type c = ''influxAuto'' \<and> conv_AutoInfluxConverterConfig c = None)"
| "payload_absent (ProcessorNode c) =
     (proc_Type c = ''dropFields'' \<and> proc_DropFieldsProcessorConfig c = None \<or>
      proc_Type c = ''keepFields'' \<and> proc_KeepFieldsProcessorConfig c = None \<or>
      proc_Type c = ''multiple'' \<and> proc_MultipleProcessorConfig c = None)"
| "payload_absent (ConditionCheckerNode c) =
     (cond_Type c = ''numberCompare'' \<and> cond_NumberCompareConditionConfig c = None \<or>
      cond_Type c = ''multiple'' \<and> cond_MultipleConditionCheckerConfig c = None)"
| "payload_absent (OutputterNode c) =
     (out_Type c = ''ManagedStream'' \<and> out_ManagedStreamConfig c = None \<or>
      out_Type c = ''localSubscribers'' \<or>
      out_Type c = ''redirect'' \<and> out_RedirectOutputConfig c = None \<or>
      out_Type c = ''multiple'' \<and> out_MultipleOutputterConfig c = None \<or>
      out_Type c = ''conditional'' \<and> out_ConditionalOutputConfig c = None \<or>
      out_Type c = ''threshold'' \<and> out_ThresholdOutputConfig c = None \<or>
      out_Type c = ''remoteWrite'' \<and> out_RemoteWriteOutputConfig c = None \<or>
      out_Type c = ''changeLog'' \<and> out_ChangeLogOutputConfig c = None)"

text \<open>The two outputter discriminators whose case reads no payload.\<close>

definition payload_free :: "ConfigNode \<Rightarrow> bool" where
  "payload_free n =
     (case n of OutputterNode c \<Rightarrow> out_Type c = ''ManagedStream'' \<or> out_Type c = ''localSubscribers''
      | _ \<Rightarrow> False)"

text \<open>
  The backend a \<^verbatim>\<open>remoteWrite\<close> node refers to: the first entry of the list with the
  node's uid.
\<close>

definition backend_of :: "RemoteWriteBackend list \<Rightarrow> string \<Rightarrow> RemoteWriteBackend option" where
  "backend_of backends uid = find (\<lambda>rwb. UID rwb = uid) backends"

text \<open>
  What is wrong with a node by itself, its children apart: an unknown type, a missing
  payload, or for a \<^verbatim>\<open>remoteWrite\<close> node a uid with no backend or a backend without
  settings.
\<close>

definition remote_write_defect :: "FileStorage \<Rightarrow> ConfigNode \<Rightarrow> failure option" where
  "remote_write_defect f n =
     (case n of
        OutputterNode c \<Rightarrow>
          (if out_Type c = ''remoteWrite'' then
             (case out_RemoteWriteOutputConfig c of
                None \<Rightarrow> None
              | Some rw \<Rightarrow>
                 (case backend_of (remoteWriteBackends f) (rw_UID rw) of
                    None \<Rightarrow> Some (Err (UnknownRemoteWriteBackendUid (rw_UID rw)))
                  | Some rwb \<Rightarrow>
                     (case Settings rwb of None \<Rightarrow> Some (Panic NilPointerDereference) | Some s \<Rightarrow> None)))
           else None)
      | _ \<Rightarrow> None)"

definition node_defect :: "FileStorage \<Rightarrow> ConfigNode \<Rightarrow> failure option" where
  "node_defect f n =
     (if unknown_type n then Some (Err (unknown_type_error n))
      else if payload_absent n \<and> \<not> payload_free n then Some (Err (MissingConfiguration (node_type n)))
      else remote_write_defect f n)"

fun first_defect :: "FileStorage \<Rightarrow> ConfigNode list \<Rightarrow> failure option" where
  "first_defect f [] = None"
| "first_defect f (n # ns) = (case node_defect f n of Some e \<Rightarrow> Some e | None \<Rightarrow> first_defect f ns)"

text \<open>The failure of building one node with the extractor of its kind, if it fails.\<close>

fun build_failure :: "FileStorage \<Rightarrow> ConfigNode \<Rightarrow> failure option" where
  "build_failure f (ConverterNode c) =
     (case extractConverter f (Some c) of Inl e \<Rightarrow> Some e | Inr r \<Rightarrow> None)"
| "build_failure f (ProcessorNode c) =
     (case extractProcessor f (Some c) of Inl e \<Rightarrow> Some e | Inr r \<Rightarrow> None)"
| "build_failure f (ConditionCheckerNode c) =
     (case extractConditionChecker f (Some c) of Inl e \<Rightarrow> Some e | Inr r \<Rightarrow> None)"
| "build_failure f (OutputterNode c) =
     (case extractOutputter f (Some c) of Inl e \<Rightarrow> Some e | Inr r \<Rightarrow> None)"

subsection \<open>Example inputs\<close>

definition storage0 :: FileStorage where
  "storage0 = \<lparr>Node = 1, ManagedStream = 2, FrameStorage = 3, remoteWriteBackends = []\<rparr>"

definition managed_stream_bare :: OutputterConfig where
  "managed_stream_bare = OutputterConfig ''ManagedStream'' None None None None None None None"

definition local_subscribers_bare :: OutputterConfig where
  "local_subscribers_bare = OutputterConfig ''localSubscribers'' None None None None None None None"

definition threshold_bare :: OutputterConfig where
  "threshold_bare = OutputterConfig ''threshold'' None None None None None None None"

definition storage_nil_settings :: FileStorage where
  "storage_nil_settings =
     \<lparr>Node = 1, ManagedStream = 2, FrameStorage = 3,
      remoteWriteBackends = [\<lparr>UID = ''influx'', Settings = None\<rparr>]\<rparr>"

definition remote_write_influx :: OutputterConfig where
  "remote_write_influx =
     OutputterConfig ''remoteWrite'' None None None None None (Some \<lparr>rw_UID = ''influx''\<rparr>) None"

definition rule_remote_write_influx :: ChannelRule where
  "rule_remote_write_influx =
     \<lparr>rule_Pattern = ''stream/influx/*'',
      rule_Settings = \<lparr>set_Converter = None, set_Processor = None,
                        set_Outputter = Some remote_write_influx\<rparr>\<rparr>"

definition conditional_empty :: OutputterConfig where
  "conditional_empty =
     OutputterConfig ''conditional'' None None None (Some (ConditionalOutputConfig None None))
       None None None"

definition number_compare_hot :: ConditionCheckerConfig where
  "number_compare_hot =
     ConditionCheckerConfig ''numberCompare'' None
       (Some \<lparr>FieldName = ''value'', Op = ''gt'', Value = 5\<rparr>)"

definition condition_regex :: ConditionCheckerConfig where
  "condition_regex = ConditionCheckerConfig ''regex'' None None"

definition conditional_hot_only :: OutputterConfig where
  "conditional_hot_only =
     OutputterConfig ''conditional'' None None None
       (Some (ConditionalOutputConfig (Some number_compare_hot) None)) None None None"

definition conditional_managed_only :: OutputterConfig where
  "conditional_managed_only =
     OutputterConfig ''conditional'' None None None
       (Some (ConditionalOutputConfig None (Some managed_stream_bare))) None None None"

definition conditional_hot_managed :: OutputterConfig where
  "conditional_hot_managed =
     OutputterConfig ''conditional'' None None None
       (Some (ConditionalOutputConfig (Some number_compare_hot) (Some managed_stream_bare)))
       None None None"

definition conditional_regex_managed :: OutputterConfig where
  "conditional_regex_managed =
     OutputterConfig ''conditional'' None None None
       (Some (ConditionalOutputConfig (Some condition_regex) (Some managed_stream_bare)))
       None None None"

definition conditional_hot_threshold :: OutputterConfig where
  "conditional_hot_threshold =
     OutputterConfig ''conditional'' None None None
       (Some (ConditionalOutputConfig (Some number_compare_hot) (Some threshold_bare)))
       None None None"

text \<open>
  A stand-in for \<^verbatim>\<open>json.Unmarshal\<close> in the examples: the empty input is an error, as in
  Go, and any other input decodes to the given document.
\<close>

definition Unmarshal_as :: "ChannelRules \<Rightarrow> string \<Rightarrow> error + ChannelRules" where
  "Unmarshal_as doc ruleBytes =
     (if ruleBytes = [] then Inl (JSONError ''unexpected end of JSON input'') else Inr doc)"

definition json_auto :: ConverterConfig where
  "json_auto =
     \<lparr>conv_Type = ''jsonAuto'', conv_AutoJsonConverterConfig = Some ''{}'',
      conv_ExactJsonConverterConfig = None, conv_AutoInfluxConverterConfig = None,
      conv_JsonFrameConverterConfig = None\<rparr>"

definition converter_csv :: ConverterConfig where
  "converter_csv =
     \<lparr>conv_Type = ''csv'', conv_AutoJsonConverterConfig = None,
      conv_ExactJsonConverterConfig = None, conv_AutoInfluxConverterConfig = None,
      conv_JsonFrameConverterConfig = None\<rparr>"

definition keep_value :: ProcessorConfig where
  "keep_value = ProcessorConfig ''keepFields'' None (Some ''{fields: [value]}'') None"

definition processor_rename :: ProcessorConfig where
  "processor_rename = ProcessorConfig ''rename'' None None None"

definition rule_json_keep_local :: ChannelRule where
  "rule_json_keep_local =
     \<lparr>rule_Pattern = ''stream/json/*'',
      rule_Settings = \<lparr>set_Converter = Some json_auto, set_Processor = Some keep_value,
                        set_Outputter = Some local_subscribers_bare\<rparr>\<rparr>"

definition rule_managed :: ChannelRule where
  "rule_managed =
     \<lparr>rule_Pattern = ''stream/managed/*'',
      rule_Settings = \<lparr>set_Converter = None, set_Processor = None,
                        set_Outputter = Some managed_stream_bare\<rparr>\<rparr>"

definition rule_rename :: ChannelRule where
  "rule_rename =
     \<lparr>rule_Pattern = ''stream/rename/*'',
      rule_Settings = \<lparr>set_Converter = Some json_auto, set_Processor = Some processor_rename,
                        set_Outputter = Some managed_stream_bare\<rparr>\<rparr>"

definition rule_csv :: ChannelRule where
  "rule_csv =
     \<lparr>rule_Pattern = ''stream/csv/*'',
      rule_Settings = \<lparr>set_Converter = Some converter_csv, set_Processor = None,
                        set_Outputter = None\<rparr>\<rparr>"

definition doc_third_rule_fails :: ChannelRules where
  "doc_third_rule_fails =
     \<lparr>Rules = [rule_json_keep_local, rule_managed, rule_rename, rule_managed],
      RemoteWriteBackends = []\<rparr>"

definition storage_prod :: FileStorage where
  "storage_prod =
     \<lparr>Node = 1, ManagedStream = 2, FrameStorage = 3,
      remoteWriteBackends = [\<lparr>UID = ''prod'', Settings = Some ''{endpoint: prod}''\<rparr>]\<rparr>"

definition doc_csv_staging :: ChannelRules where
  "doc_csv_staging =
     \<lparr>Rules = [rule_csv],
      RemoteWriteBackends = [\<lparr>UID = ''staging'', Settings = Some ''{endpoint: staging}''\<rparr>]\<rparr>"

definition drop_secret :: ProcessorConfig where
  "drop_secret = ProcessorConfig ''dropFields'' (Some ''{fields: [secret]}'') None None"

definition multiple_keep_drop :: ProcessorConfig where
  "multiple_keep_drop =
     ProcessorConfig ''multiple'' None None (Some (MultipleProcessorConfig [keep_value, drop_secret]))"

definition multiple_keep_rename_drop :: ProcessorConfig where
  "multiple_keep_rename_drop =
     ProcessorConfig ''multiple'' None None
       (Some (MultipleProcessorConfig [keep_value, processor_rename, drop_secret]))"

definition multiple_any_hot_regex :: ConditionCheckerConfig where
  "multiple_any_hot_regex =
     ConditionCheckerConfig ''multiple''
       (Some (MultipleConditionCheckerConfig ''or'' [number_compare_hot, condition_regex])) None"

definition multiple_all_hot :: ConditionCheckerConfig where
  "multiple_all_hot =
     ConditionCheckerConfig ''multiple''
       (Some (MultipleConditionCheckerConfig ''and'' [number_compare_hot, number_compare_hot])) None"

definition multiple_managed_local :: OutputterConfig where
  "multiple_managed_local =
     OutputterConfig ''multiple'' None
       (Some (MultipleOutputterConfig [managed_stream_bare, local_subscribers_bare]))
       None None None None None"

definition multiple_managed_threshold_local :: OutputterConfig where
  "multiple_managed_threshold_local =
     OutputterConfig ''multiple'' None
       (Some (MultipleOutputterConfig [managed_stream_bare, threshold_bare, local_subscribers_bare]))
       None None None None None"

definition conditional_any_local :: OutputterConfig where
  "conditional_any_local =
     OutputterConfig ''conditional'' None None None
       (Some (ConditionalOutputConfig (Some multiple_any_hot_regex) (Some local_subscribers_bare)))
       None None None"

definition multiple_managed_conditional :: OutputterConfig where
  "multiple_managed_conditional =
     OutputterConfig ''multiple'' None
       (Some (MultipleOutputterConfig [managed_stream_bare, conditional_any_local]))
       None None None None None"

definition rule_nested :: ChannelRule where
  "rule_nested =
     \<lparr>rule_Pattern = ''stream/nested/*'',
      rule_Settings = \<lparr>set_Converter = Some json_auto, set_Processor = Some keep_value,
                        set_Outputter = Some multiple_managed_conditional\<rparr>\<rparr>"

definition doc_nested_regex :: ChannelRules where
  "doc_nested_regex = \<lparr>Rules = [rule_managed, rule_nested], RemoteWriteBackends = []\<rparr>"

definition rule_csv_rename :: ChannelRule where
  "rule_csv_rename =
     \<lparr>rule_Pattern = ''stream/csv/*'',
      rule_Settings = \<lparr>set_Converter = Some converter_csv, set_Processor = Some processor_rename,
                        set_Outputter = None\<rparr>\<rparr>"

definition doc_csv_rename :: ChannelRules where
  "doc_csv_rename = \<lparr>Rules = [rule_csv_rename], RemoteWriteBackends = []\<rparr>"

definition remote_write_prod :: OutputterConfig where
  "remote_write_prod =
     OutputterConfig ''remoteWrite'' None None None None None (Some \<lparr>rw_UID = ''prod''\<rparr>) None"

definition multiple_managed_influx :: OutputterConfig where
  "multiple_managed_influx =
     OutputterConfig ''multiple'' None
       (Some (MultipleOutputterConfig [managed_stream_bare, remote_write_influx]))
       None None None None None"

definition rule_managed_influx :: ChannelRule where
  "rule_managed_influx =
     \<lparr>rule_Pattern = ''stream/influx/*'',
      rule_Settings = \<lparr>set_Converter = Some json_auto, set_Processor = None,
                        set_Outputter = Some multiple_managed_influx\<rparr>\<rparr>"

definition doc_influx_dangling :: ChannelRules where
  "doc_influx_dangling =
     \<lparr>Rules = [rule_managed, rule_managed_influx],
      RemoteWriteBackends = [\<lparr>UID = ''prod'', Settings = Some ''{endpoint: prod}''\<rparr>]\<rparr>"

definition rule_csv_influx :: ChannelRule where
  "rule_csv_influx =
     \<lparr>rule_Pattern = ''stream/csv/*'',
      rule_Settings = \<lparr>set_Converter = Some converter_csv, set_Processor = None,
                        set_Outputter = Some remote_write_influx\<rparr>\<rparr>"

definition doc_csv_influx :: ChannelRules where
  "doc_csv_influx = \<lparr>Rules = [rule_csv_influx], RemoteWriteBackends = []\<rparr>"

definition outputter_kafka :: OutputterConfig where
  "outputter_kafka = OutputterConfig ''kafka'' None None None None None None None"

definition redirect_stray_kafka :: OutputterConfig where
  "redirect_stray_kafka =
     OutputterConfig ''redirect'' None (Some (MultipleOutputterConfig [outputter_kafka]))
       (Some ''{channel: other}'') None None None None"

definition doc_redirect_stray_kafka :: ChannelRules where
  "doc_redirect_stray_kafka =
     \<lparr>Rules = [\<lparr>rule_Pattern = ''stream/redirect/*'',
                rule_Settings = \<lparr>set_Converter = None, set_Processor = None,
                                  set_Outputter = Some redirect_stray_kafka\<rparr>\<rparr>],
      RemoteWriteBackends = []\<rparr>"

definition redirect_stray_influx :: OutputterConfig where
  "redirect_stray_influx =
     OutputterConfig ''redirect'' None (Some (MultipleOutputterConfig [remote_write_influx]))
       (Some ''{channel: other}'') None None None None"

definition doc_redirect_stray_influx :: ChannelRules where
  "doc_redirect_stray_influx =
     \<lparr>Rules = [\<lparr>rule_Pattern = ''stream/redirect/*'',
                rule_Settings = \<lparr>set_Converter = None, set_Processor = None,
                                  set_Outputter = Some redirect_stray_influx\<rparr>\<rparr>],
      RemoteWriteBackends = []\<rparr>"

section \<open>The build stops at the first defect\<close>

lemma first_defect_append:
  "first_defect f (xs @ ys) = (case first_defect f xs of Some e \<Rightarrow> Some e | None \<Rightarrow> first_defect f ys)"
  by (induction xs) (auto split: option.splits)

lemma getRemoteWriteConfig_range_find:
  "getRemoteWriteConfig_range bs uid = (case find (\<lambda>rwb. UID rwb = uid) bs of None \<Rightarrow> (None, False) | Some b \<Rightarrow> (Settings b, True))"
  by (induction bs) auto

lemma converter_defect:
  "node_defect f (ConverterNode c) = (case extractConverter f (Some c) of Inl e \<Rightarrow> Some e | Inr r \<Rightarrow> None)"
  by (auto simp: node_defect_def unknown_type_def converter_types_def payload_free_def remote_write_defect_def split: option.splits)

lemma processor_node_defect:
  "node_defect f (ProcessorNode (ProcessorConfig ty d k m)) =
     (if ty = ''dropFields'' then (case d of None \<Rightarrow> Some (Err (MissingConfiguration ty)) | Some c \<Rightarrow> None)
      else if ty = ''keepFields'' then (case k of None \<Rightarrow> Some (Err (MissingConfiguration ty)) | Some c \<Rightarrow> None)
      else if ty = ''multiple'' then (case m of None \<Rightarrow> Some (Err (MissingConfiguration ty)) | Some c \<Rightarrow> None)
      else Some (Err (UnknownProcessorType ty)))"
  by (auto simp: node_defect_def unknown_type_def processor_types_def payload_free_def remote_write_defect_def split: option.splits)

lemma processor_defects:
  "first_defect f (case c of None \<Rightarrow> [] | Some c' \<Rightarrow> processor_nodes c') = (case extractProcessor f c of Inl e \<Rightarrow> Some e | Inr r \<Rightarrow> None)"
  "first_defect f (processor_list_nodes cs) = (case extractProcessor_range f cs acc of Inl e \<Rightarrow> Some e | Inr r \<Rightarrow> None)"
proof (induction f c and f cs acc rule: extractProcessor_extractProcessor_range.induct)
  case (1 f)
  show ?case by simp
next
  case (2 f ty d k m)
  show ?case
  proof (cases m)
    case None
    then show ?thesis
      by (simp add: processor_node_defect split: option.splits)
  next
    case (Some mc)
    obtain confs where mc: "mc = MultipleProcessorConfig confs" by (cases mc)
    show ?thesis
    proof (cases "ty = ''multiple''")
      case True
      from 2 [OF _ _ True Some mc] True
      have "first_defect f (processor_list_nodes confs) =
        (case extractProcessor_range f confs [] of Inl e \<Rightarrow> Some e | Inr r \<Rightarrow> None)"
        by simp
      with True Some mc show ?thesis
        by (simp add: processor_node_defect split: sum.splits)
    next
      case False
      then show ?thesis
        by (simp add: processor_node_defect split: option.splits)
    qed
  qed
next
  case (3 f processors)
  show ?case by simp
next
  case (4 f outConf rest processors)
  show ?case
  proof (cases "extractProcessor f (Some outConf)")
    case (Inl e)
    with 4(1) show ?thesis by (simp add: first_defect_append)
  next
    case (Inr proc)
    with 4(1) 4(2) [OF Inr] show ?thesis by (simp add: first_defect_append)
  qed
qed


lemma condition_node_defect:
  "node_defect f (ConditionCheckerNode (ConditionCheckerConfig ty m n)) =
     (if ty = ''numberCompare'' then (case n of None \<Rightarrow> Some (Err (MissingConfiguration ty)) | Some c \<Rightarrow> None)
      else if ty = ''multiple'' then (case m of None \<Rightarrow> Some (Err (MissingConfiguration ty)) | Some c \<Rightarrow> None)
      else Some (Err (UnknownConditionType ty)))"
  by (auto simp: node_defect_def unknown_type_def condition_types_def payload_free_def remote_write_defect_def split: option.splits)

lemma condition_defects:
  "first_defect f (case c of None \<Rightarrow> [] | Some c' \<Rightarrow> condition_nodes c') = (case extractConditionChecker f c of Inl e \<Rightarrow> Some e | Inr r \<Rightarrow> None)"
  "first_defect f (condition_list_nodes cs) = (case extractConditionChecker_range f cs acc of Inl e \<Rightarrow> Some e | Inr r \<Rightarrow> None)"
proof (induction f c and f cs acc rule: extractConditionChecker_extractConditionChecker_range.induct)
  case (1 f)
  show ?case by simp
next
  case (2 f ty m n)
  show ?case
  proof (cases m)
    case None
    then show ?thesis
      by (simp add: condition_node_defect split: option.splits)
  next
    case (Some mc)
    obtain mty confs where mc: "mc = MultipleConditionCheckerConfig mty confs" by (cases mc)
    show ?thesis
    proof (cases "ty = ''multiple''")
      case True
      from 2 [OF _ True Some mc] True
      have "first_defect f (condition_list_nodes confs) =
        (case extractConditionChecker_range f confs [] of Inl e \<Rightarrow> Some e | Inr r \<Rightarrow> None)"
        by simp
      with True Some mc show ?thesis
        by (simp add: condition_node_defect split: sum.splits)
    next
      case False
      then show ?thesis
        by (simp add: condition_node_defect split: option.splits)
    qed
  qed
next
  case (3 f conditions)
  show ?case by simp
next
  case (4 f outConf rest conditions)
  show ?case
  proof (cases "extractConditionChecker f (Some outConf)")
    case (Inl e)
    with 4(1) show ?thesis by (simp add: first_defect_append)
  next
    case (Inr cond)
    with 4(1) 4(2) [OF Inr] show ?thesis by (simp add: first_defect_append)
  qed
qed

lemma outputter_node_defect:
  "node_defect f (OutputterNode (OutputterConfig ty ms mu re co th rw cl)) =
     (if ty = ''redirect'' then (case re of None \<Rightarrow> Some (Err (MissingConfiguration ty)) | Some c \<Rightarrow> None)
      else if ty = ''multiple'' then (case mu of None \<Rightarrow> Some (Err (MissingConfiguration ty)) | Some c \<Rightarrow> None)
      else if ty = ''ManagedStream'' then None
      else if ty = ''localSubscribers'' then None
      else if ty = ''conditional'' then (case co of None \<Rightarrow> Some (Err (MissingConfiguration ty)) | Some c \<Rightarrow> None)
      else if ty = ''threshold'' then (case th of None \<Rightarrow> Some (Err (MissingConfiguration ty)) | Some c \<Rightarrow> None)
      else if ty = ''remoteWrite'' then
        (case rw of None \<Rightarrow> Some (Err (MissingConfiguration ty))
         | Some c \<Rightarrow> (case getRemoteWriteConfig f (rw_UID c) of
              (remoteWriteConfig, ok) \<Rightarrow>
                 if \<not> ok then Some (Err (UnknownRemoteWriteBackendUid (rw_UID c)))
                 else (case remoteWriteConfig of
                         None \<Rightarrow> Some (Panic NilPointerDereference)
                       | Some rwc \<Rightarrow> None)))
      else if ty = ''changeLog'' then (case cl of None \<Rightarrow> Some (Err (MissingConfiguration ty)) | Some c \<Rightarrow> None)
      else Some (Err (UnknownOutputType ty)))"
  by (auto simp: node_defect_def unknown_type_def outputter_types_def payload_free_def remote_write_defect_def
      getRemoteWriteConfig_def getRemoteWriteConfig_range_find backend_of_def split: option.splits)

lemma outputter_defects:
  "first_defect f (case c of None \<Rightarrow> [] | Some c' \<Rightarrow> outputter_nodes c') = (case extractOutputter f c of Inl e \<Rightarrow> Some e | Inr r \<Rightarrow> None)"
  "first_defect f (outputter_list_nodes cs) = (case extractOutputter_range f cs acc of Inl e \<Rightarrow> Some e | Inr r \<Rightarrow> None)"
proof (induction f c and f cs acc rule: extractOutputter_extractOutputter_range.induct)
  case (1 f)
  show ?case by simp
next
  case (2 f ty ms mu re co th rw cl)
  let ?c = "OutputterConfig ty ms mu re co th rw cl"
  consider (multiple) confs where "ty = ''multiple''" "mu = Some (MultipleOutputterConfig confs)"
    | (conditional) cond out where "ty = ''conditional''" "co = Some (ConditionalOutputConfig cond out)"
    | (leaf) "\<not> (ty = ''multiple'' \<and> mu \<noteq> None)" "\<not> (ty = ''conditional'' \<and> co \<noteq> None)"
  proof (cases "ty = ''multiple'' \<and> mu \<noteq> None")
    case True
    then obtain mc where "mu = Some mc" by auto
    moreover obtain confs where "mc = MultipleOutputterConfig confs" by (cases mc)
    ultimately show ?thesis using True multiple by simp
  next
    case F1: False
    show ?thesis
    proof (cases "ty = ''conditional'' \<and> co \<noteq> None")
      case True
      then obtain cc where "co = Some cc" by auto
      moreover obtain cond out where "cc = ConditionalOutputConfig cond out" by (cases cc)
      ultimately show ?thesis using True conditional by simp
    next
      case False
      with F1 show ?thesis using leaf by simp
    qed
  qed
  then show ?case
  proof cases
    case multiple
    from 2(1) [OF _ multiple(1) multiple(2) refl] multiple
    have "first_defect f (outputter_list_nodes confs) =
        (case extractOutputter_range f confs [] of Inl e \<Rightarrow> Some e | Inr r \<Rightarrow> None)"
      by simp
    with multiple show ?thesis
      by (simp add: outputter_node_defect split: sum.splits)
  next
    case conditional
    have ty: "ty \<noteq> ''redirect''" "ty \<noteq> ''multiple''" "ty \<noteq> ''ManagedStream''" "ty \<noteq> ''localSubscribers''"
      using conditional(1) by simp_all
    have c: "first_defect f (case cond of None \<Rightarrow> [] | Some c' \<Rightarrow> condition_nodes c') =
        (case extractConditionChecker f cond of Inl e \<Rightarrow> Some e | Inr r \<Rightarrow> None)"
      by (rule condition_defects)
    show ?thesis
    proof (cases "extractConditionChecker f cond")
      case (Inl e)
      with c conditional show ?thesis
        by (simp add: outputter_node_defect first_defect_append)
    next
      case (Inr condition)
      from 2(2) [OF ty conditional(1) conditional(2) refl Inr]
      have "first_defect f (case out of None \<Rightarrow> [] | Some c' \<Rightarrow> outputter_nodes c') =
        (case extractOutputter f out of Inl e \<Rightarrow> Some e | Inr r \<Rightarrow> None)" .
      with c Inr conditional show ?thesis
        by (simp add: outputter_node_defect first_defect_append split: sum.splits)
    qed
  next
    case leaf
    then show ?thesis
      by (auto simp add: outputter_node_defect split: option.splits prod.splits)
  qed
next
  case (3 f outputters)
  show ?case by simp
next
  case (4 f outConf rest outputters)
  show ?case
  proof (cases "extractOutputter f (Some outConf)")
    case (Inl e)
    with 4(1) show ?thesis by (simp add: first_defect_append)
  next
    case (Inr outputter)
    with 4(1) 4(2) [OF Inr] show ?thesis by (simp add: first_defect_append)
  qed
qed

lemma first_defect_None: "first_defect f ns = None \<longleftrightarrow> (\<forall>n\<in>set ns. node_defect f n = None)"
  by (induction ns) (auto split: option.splits)

lemma first_defect_Some_mem:
  "n \<in> set ns \<Longrightarrow> node_defect f n = Some e \<Longrightarrow> \<exists>e'. first_defect f ns = Some e'"
  by (induction ns) (auto split: option.splits)

lemma first_defect_first:
  "\<forall>m\<in>set pre. node_defect f m = None \<Longrightarrow> node_defect f n = Some e \<Longrightarrow>
   first_defect f (pre @ n # post) = Some e"
proof -
  assume "\<forall>m\<in>set pre. node_defect f m = None"
  then have "first_defect f pre = None" by (simp add: first_defect_None)
  moreover assume "node_defect f n = Some e"
  ultimately show ?thesis by (simp add: first_defect_append)
qed

lemma rule_defects:
  "first_defect f (rule_nodes r) =
    (case extractConverter f (set_Converter (rule_Settings r)) of
       Inl e \<Rightarrow> Some e
     | Inr c \<Rightarrow>
        (case extractProcessor f (set_Processor (rule_Settings r)) of
           Inl e \<Rightarrow> Some e
         | Inr p \<Rightarrow>
            (case extractOutputter f (set_Outputter (rule_Settings r)) of
               Inl e \<Rightarrow> Some e
             | Inr ou \<Rightarrow> None)))"
proof -
  have c: "first_defect f (case set_Converter (rule_Settings r) of None \<Rightarrow> [] | Some c \<Rightarrow> [ConverterNode c]) =
     (case extractConverter f (set_Converter (rule_Settings r)) of Inl e \<Rightarrow> Some e | Inr c \<Rightarrow> None)"
    by (cases "set_Converter (rule_Settings r)") (simp_all add: converter_defect split: option.splits sum.splits)
  show ?thesis
    unfolding rule_nodes_def first_defect_append c processor_defects(1) outputter_defects(1)
    by (simp split: sum.splits)
qed

lemma return_nil_cases:
  "(\<exists>e. return_nil d = Return ([], Some e)) \<or> (\<exists>p. return_nil d = Panicked p)"
  by (cases d) simp_all

lemma ListChannelRules_range_defect:
  "first_defect f (concat (map rule_nodes rs)) = Some e \<Longrightarrow> ListChannelRules_range f rs acc = return_nil e"
proof (induction rs arbitrary: acc)
  case Nil
  then show ?case by simp
next
  case (Cons r rs)
  show ?case
  proof (cases "first_defect f (rule_nodes r)")
    case None
    with Cons.prems have "first_defect f (concat (map rule_nodes rs)) = Some e"
      by (simp add: first_defect_append)
    from Cons.IH [OF this] None show ?thesis
      by (simp add: rule_defects split: sum.splits)
  next
    case (Some e')
    with Cons.prems have "e' = e" by (simp add: first_defect_append)
    with Some show ?thesis
      by (simp add: rule_defects split: sum.splits)
  qed
qed

lemma ListChannelRules_range_sound:
  "first_defect f (concat (map rule_nodes rs)) = None \<Longrightarrow>
   \<exists>built. ListChannelRules_range f rs acc = Return (acc @ built, None) \<and>
     map Pattern built = map rule_Pattern rs"
proof (induction rs arbitrary: acc)
  case Nil
  then show ?case by simp
next
  case (Cons r rs)
  from Cons.prems have r: "first_defect f (rule_nodes r) = None"
    and rs: "first_defect f (concat (map rule_nodes rs)) = None"
    by (simp_all add: first_defect_append split: option.splits)
  from r obtain c p ou where b: "extractConverter f (set_Converter (rule_Settings r)) = Inr c"
    "extractProcessor f (set_Processor (rule_Settings r)) = Inr p"
    "extractOutputter f (set_Outputter (rule_Settings r)) = Inr ou"
    by (auto simp: rule_defects split: sum.splits)
  let ?rule = "\<lparr>Pattern = rule_Pattern r, Converter = c, Processor = p, Outputter = ou\<rparr>"
  from Cons.IH [OF rs, of "acc @ [?rule]"] obtain built where
    "ListChannelRules_range f rs (acc @ [?rule]) = Return ((acc @ [?rule]) @ built, None)"
    "map Pattern built = map rule_Pattern rs" by blast
  with b have "ListChannelRules_range f (r # rs) acc = Return (acc @ (?rule # built), None) \<and>
     map Pattern (?rule # built) = map rule_Pattern (r # rs)" by simp
  then show ?case by blast
qed

lemma ListChannelRules_range_all_or_nothing:
  "(\<exists>built. ListChannelRules_range f rs acc = Return (acc @ built, None) \<and>
       map Pattern built = map rule_Pattern rs) \<or>
   (\<exists>e. ListChannelRules_range f rs acc = Return ([], Some e)) \<or>
   (\<exists>p. ListChannelRules_range f rs acc = Panicked p)"
proof (cases "first_defect f (concat (map rule_nodes rs))")
  case None
  from ListChannelRules_range_sound [OF this] show ?thesis by blast
next
  case (Some e)
  from ListChannelRules_range_defect [OF this, of acc] show ?thesis
    by (cases e) simp_all
qed

lemma ListChannelRules_range_append:
  "ListChannelRules_range f pre acc = Return (built, None) \<Longrightarrow>
   ListChannelRules_range f (pre @ rs) acc = ListChannelRules_range f rs built"
proof (induction pre arbitrary: acc)
  case Nil
  then show ?case by simp
next
  case (Cons r pre)
  show ?case
  proof (cases "first_defect f (rule_nodes r)")
    case None
    then obtain c p ou where b: "extractConverter f (set_Converter (rule_Settings r)) = Inr c"
      "extractProcessor f (set_Processor (rule_Settings r)) = Inr p"
      "extractOutputter f (set_Outputter (rule_Settings r)) = Inr ou"
      by (auto simp: rule_defects split: sum.splits)
    with Cons.prems Cons.IH show ?thesis by simp
  next
    case (Some e)
    then have "first_defect f (concat (map rule_nodes (r # pre))) = Some e"
      by (simp add: first_defect_append)
    from ListChannelRules_range_defect [OF this, of acc] Cons.prems show ?thesis
      by (cases e) simp_all
  qed
qed

lemma ListChannelRules_parsed:
  "Unmarshal ruleBytes = Inr doc \<Longrightarrow>
   ListChannelRules f Unmarshal ruleBytes =
     (ListChannelRules_range (f\<lparr>remoteWriteBackends := RemoteWriteBackends doc\<rparr>) (Rules doc) [],
      f\<lparr>remoteWriteBackends := RemoteWriteBackends doc\<rparr>)"
  by (simp add: ListChannelRules_def Let_def)

lemma node_head:
  "\<exists>ns. processor_nodes p = ProcessorNode p # ns"
  "\<exists>ns. condition_nodes c = ConditionCheckerNode c # ns"
  "\<exists>ns. outputter_nodes ou = OutputterNode ou # ns"
proof -
  show "\<exists>ns. processor_nodes p = ProcessorNode p # ns" by (cases p) simp
  show "\<exists>ns. condition_nodes c = ConditionCheckerNode c # ns" by (cases c) simp
  show "\<exists>ns. outputter_nodes ou = OutputterNode ou # ns" by (cases ou) simp
qed

lemma build_failure_first_defect:
  "node_defect f n = Some e \<Longrightarrow> build_failure f n = Some e"
proof (cases n)
  case (ConverterNode c)
  assume "node_defect f n = Some e"
  with ConverterNode show ?thesis by (simp add: converter_defect)
next
  case (ProcessorNode p)
  assume d: "node_defect f n = Some e"
  from node_head(1) obtain ns where "processor_nodes p = ProcessorNode p # ns" by blast
  with d ProcessorNode have "first_defect f (case Some p of None \<Rightarrow> [] | Some c' \<Rightarrow> processor_nodes c') = Some e"
    by simp
  with ProcessorNode show ?thesis unfolding processor_defects(1) by simp
next
  case (ConditionCheckerNode c)
  assume d: "node_defect f n = Some e"
  from node_head(2) obtain ns where "condition_nodes c = ConditionCheckerNode c # ns" by blast
  with d ConditionCheckerNode have "first_defect f (case Some c of None \<Rightarrow> [] | Some c' \<Rightarrow> condition_nodes c') = Some e"
    by simp
  with ConditionCheckerNode show ?thesis unfolding condition_defects(1) by simp
next
  case (OutputterNode ou)
  assume d: "node_defect f n = Some e"
  from node_head(3) obtain ns where "outputter_nodes ou = OutputterNode ou # ns" by blast
  with d OutputterNode have "first_defect f (case Some ou of None \<Rightarrow> [] | Some c' \<Rightarrow> outputter_nodes c') = Some e"
    by simp
  with OutputterNode show ?thesis unfolding outputter_defects(1) by simp
qed

section \<open>Absent stages\<close>

text \<open>
  C6. Each of the four extractors, given an absent (nil) configuration node, returns an
  absent stage and no error; a rule whose settings name no stage at all builds into a rule
  with three absent stages.
\<close>

theorem absent_node_builds_absent_stage:
  "extractConverter f None = Inr None \<and>
   extractProcessor f None = Inr None \<and>
   extractConditionChecker f None = Inr None \<and>
   extractOutputter f None = Inr None \<and>
   ListChannelRules_range f
     [\<lparr>rule_Pattern = p, rule_Settings = \<lparr>set_Converter = None, set_Processor = None, set_Outputter = None\<rparr>\<rparr>] [] =
     Return ([\<lparr>Pattern = p, Converter = None, Processor = None, Outputter = None\<rparr>], None)"
  by simp

section \<open>Missing payloads\<close>

text \<open>
  C2, as amended. A node whose \<open>type\<close> is a known discriminator of its kind, other than
  the outputter discriminators \<^verbatim>\<open>ManagedStream\<close> and \<^verbatim>\<open>localSubscribers\<close>, and whose
  payload field for that type is absent fails to build with the error "missing
  configuration for" its type. A \<^verbatim>\<open>ManagedStream\<close> or \<^verbatim>\<open>localSubscribers\<close> outputter
  node builds whatever payload it has: its case reads none.
\<close>

theorem missing_payload_fails_build:
  "(\<not> unknown_type n \<and> payload_absent n \<and> \<not> payload_free n \<longrightarrow>
      build_failure f n = Some (Err (MissingConfiguration (node_type n)))) \<and>
   (payload_free n \<longrightarrow> build_failure f n = None)"
proof (intro conjI impI)
  assume "\<not> unknown_type n \<and> payload_absent n \<and> \<not> payload_free n"
  then have "node_defect f n = Some (Err (MissingConfiguration (node_type n)))"
    by (simp add: node_defect_def)
  then show "build_failure f n = Some (Err (MissingConfiguration (node_type n)))"
    by (rule build_failure_first_defect)
next
  assume "payload_free n"
  then obtain c where n: "n = OutputterNode c"
    and ty: "out_Type c = ''ManagedStream'' \<or> out_Type c = ''localSubscribers''"
    by (auto simp: payload_free_def split: ConfigNode.splits)
  from ty show "build_failure f n = None"
    unfolding n by (cases c) auto
qed

theorem missing_payload_fails_build_witness:
  "\<not> unknown_type (OutputterNode threshold_bare) \<and> payload_absent (OutputterNode threshold_bare) \<and>
   \<not> payload_free (OutputterNode threshold_bare) \<and>
   extractOutputter storage0 (Some threshold_bare) = Inl (Err (MissingConfiguration ''threshold'')) \<and>
   payload_free (OutputterNode local_subscribers_bare) \<and>
   extractOutputter storage0 (Some local_subscribers_bare) = Inr (Some (NewLocalSubscribersOutput 1))"
  using missing_payload_fails_build [of "OutputterNode threshold_bare" storage0]
    missing_payload_fails_build [of "OutputterNode local_subscribers_bare" storage0]
  by (simp add: unknown_type_def outputter_types_def payload_free_def threshold_bare_def
      local_subscribers_bare_def storage0_def)

text \<open>
  C2 as stated fails for the two outputter discriminators it names: with no payload at all,
  a \<^verbatim>\<open>ManagedStream\<close> node and a \<^verbatim>\<open>localSubscribers\<close> node build.
\<close>

theorem payload_free_outputters_counterexample:
  "\<not> unknown_type (OutputterNode managed_stream_bare) \<and>
   payload_absent (OutputterNode managed_stream_bare) \<and>
   extractOutputter storage0 (Some managed_stream_bare) = Inr (Some (NewManagedStreamOutput 2)) \<and>
   \<not> unknown_type (OutputterNode local_subscribers_bare) \<and>
   payload_absent (OutputterNode local_subscribers_bare) \<and>
   extractOutputter storage0 (Some local_subscribers_bare) = Inr (Some (NewLocalSubscribersOutput 1))"
  by (simp add: unknown_type_def outputter_types_def managed_stream_bare_def
      local_subscribers_bare_def storage0_def)

section \<open>Conditional outputters\<close>

lemma extractOutputter_conditional:
  assumes "out_Type c = ''conditional''" and "out_ConditionalOutputConfig c = Some cc"
  shows "extractOutputter f (Some c) =
    (case extractConditionChecker f (conditional_Condition cc) of
       Inl err \<Rightarrow> Inl err
     | Inr condition \<Rightarrow>
        (case extractOutputter f (conditional_Outputter cc) of
           Inl err \<Rightarrow> Inl err
         | Inr outputter \<Rightarrow> Inr (Some (NewConditionalOutput condition outputter))))"
  using assms by (cases c; cases cc) (simp split: sum.splits)

text \<open>
  C8. A \<^verbatim>\<open>conditional\<close> outputter node resolves its \<^verbatim>\<open>condition\<close> sub-node with
  \<open>extractConditionChecker\<close> and its \<^verbatim>\<open>outputter\<close> sub-node with \<open>extractOutputter\<close>,
  and nothing else: when the condition fails to build the node fails with the condition's
  error, when the condition builds and the outputter fails the node fails with the
  outputter's error, a node whose outputter sub-node fails to build never builds, and when
  both build the node is the conditional output of the two.
\<close>

theorem conditional_resolves_two_subnodes:
  assumes "out_Type c = ''conditional''" and "out_ConditionalOutputConfig c = Some cc"
  shows
    "(extractConditionChecker f (conditional_Condition cc) = Inl e \<longrightarrow>
        extractOutputter f (Some c) = Inl e) \<and>
     (extractConditionChecker f (conditional_Condition cc) = Inr condition \<and>
      extractOutputter f (conditional_Outputter cc) = Inl e \<longrightarrow>
        extractOutputter f (Some c) = Inl e) \<and>
     (extractOutputter f (conditional_Outputter cc) = Inl e \<longrightarrow>
        (\<exists>e'. extractOutputter f (Some c) = Inl e')) \<and>
     (extractConditionChecker f (conditional_Condition cc) = Inr condition \<and>
      extractOutputter f (conditional_Outputter cc) = Inr outputter \<longrightarrow>
        extractOutputter f (Some c) = Inr (Some (NewConditionalOutput condition outputter)))"
  by (simp add: extractOutputter_conditional [OF assms] split: sum.splits)

theorem conditional_resolves_two_subnodes_witness:
  "extractOutputter storage0 (Some conditional_regex_managed) = Inl (Err (UnknownConditionType ''regex'')) \<and>
   extractOutputter storage0 (Some conditional_hot_threshold) = Inl (Err (MissingConfiguration ''threshold'')) \<and>
   extractOutputter storage0 (Some conditional_hot_managed) =
     Inr (Some (NewConditionalOutput (Some (NewNumberCompareCondition ''value'' ''gt'' 5))
                  (Some (NewManagedStreamOutput 2))))"
proof -
  let ?regex = "ConditionalOutputConfig (Some condition_regex) (Some managed_stream_bare)"
  let ?thr = "ConditionalOutputConfig (Some number_compare_hot) (Some threshold_bare)"
  let ?ok = "ConditionalOutputConfig (Some number_compare_hot) (Some managed_stream_bare)"
  have t1: "out_Type conditional_regex_managed = ''conditional''"
    and p1: "out_ConditionalOutputConfig conditional_regex_managed = Some ?regex"
    by (simp_all add: conditional_regex_managed_def)
  have t2: "out_Type conditional_hot_threshold = ''conditional''"
    and p2: "out_ConditionalOutputConfig conditional_hot_threshold = Some ?thr"
    by (simp_all add: conditional_hot_threshold_def)
  have t3: "out_Type conditional_hot_managed = ''conditional''"
    and p3: "out_ConditionalOutputConfig conditional_hot_managed = Some ?ok"
    by (simp_all add: conditional_hot_managed_def)
  have c: "extractConditionChecker storage0 (Some condition_regex) = Inl (Err (UnknownConditionType ''regex''))"
    "extractConditionChecker storage0 (Some number_compare_hot) =
       Inr (Some (NewNumberCompareCondition ''value'' ''gt'' 5))"
    by (simp_all add: condition_regex_def number_compare_hot_def)
  have o: "extractOutputter storage0 (Some threshold_bare) = Inl (Err (MissingConfiguration ''threshold''))"
    "extractOutputter storage0 (Some managed_stream_bare) = Inr (Some (NewManagedStreamOutput 2))"
    by (simp_all add: threshold_bare_def managed_stream_bare_def storage0_def)
  show ?thesis
    using conditional_resolves_two_subnodes [OF t1 p1, of storage0 "Err (UnknownConditionType ''regex'')"]
      conditional_resolves_two_subnodes [OF t2 p2, of storage0 "Err (MissingConfiguration ''threshold'')"
        "Some (NewNumberCompareCondition ''value'' ''gt'' 5)"]
      conditional_resolves_two_subnodes [OF t3 p3, of storage0 _
        "Some (NewNumberCompareCondition ''value'' ''gt'' 5)" "Some (NewManagedStreamOutput 2)"]
      c o
    by simp
qed

text \<open>
  C10. A \<^verbatim>\<open>conditional\<close> outputter node whose payload is present and whose
  \<^verbatim>\<open>condition\<close> sub-node or \<^verbatim>\<open>outputter\<close> sub-node is absent does not fail for that: the
  absent sub-node resolves to nil, and the conditional output is constructed with a nil
  condition, a nil child outputter, or both (the other sub-node, when present, building).
\<close>

theorem conditional_absent_subnodes_build:
  assumes "out_Type c = ''conditional''" and "out_ConditionalOutputConfig c = Some cc"
  shows
    "(conditional_Condition cc = None \<and> conditional_Outputter cc = None \<longrightarrow>
        extractOutputter f (Some c) = Inr (Some (NewConditionalOutput None None))) \<and>
     (conditional_Condition cc = None \<and> extractOutputter f (conditional_Outputter cc) = Inr outputter \<longrightarrow>
        extractOutputter f (Some c) = Inr (Some (NewConditionalOutput None outputter))) \<and>
     (conditional_Outputter cc = None \<and> extractConditionChecker f (conditional_Condition cc) = Inr condition \<longrightarrow>
        extractOutputter f (Some c) = Inr (Some (NewConditionalOutput condition None)))"
  by (simp add: extractOutputter_conditional [OF assms])

theorem conditional_absent_subnodes_build_witness:
  "extractOutputter storage0 (Some conditional_empty) = Inr (Some (NewConditionalOutput None None)) \<and>
   extractOutputter storage0 (Some conditional_managed_only) =
     Inr (Some (NewConditionalOutput None (Some (NewManagedStreamOutput 2)))) \<and>
   extractOutputter storage0 (Some conditional_hot_only) =
     Inr (Some (NewConditionalOutput (Some (NewNumberCompareCondition ''value'' ''gt'' 5)) None))"
proof -
  have t1: "out_Type conditional_empty = ''conditional''"
    and p1: "out_ConditionalOutputConfig conditional_empty = Some (ConditionalOutputConfig None None)"
    by (simp_all add: conditional_empty_def)
  have t2: "out_Type conditional_managed_only = ''conditional''"
    and p2: "out_ConditionalOutputConfig conditional_managed_only =
      Some (ConditionalOutputConfig None (Some managed_stream_bare))"
    by (simp_all add: conditional_managed_only_def)
  have t3: "out_Type conditional_hot_only = ''conditional''"
    and p3: "out_ConditionalOutputConfig conditional_hot_only =
      Some (ConditionalOutputConfig (Some number_compare_hot) None)"
    by (simp_all add: conditional_hot_only_def)
  have c: "extractConditionChecker storage0 (Some number_compare_hot) =
       Inr (Some (NewNumberCompareCondition ''value'' ''gt'' 5))"
    by (simp add: number_compare_hot_def)
  have o: "extractOutputter storage0 (Some managed_stream_bare) = Inr (Some (NewManagedStreamOutput 2))"
    by (simp add: managed_stream_bare_def storage0_def)
  show ?thesis
    using conditional_absent_subnodes_build [OF t1 p1, of storage0]
      conditional_absent_subnodes_build [OF t2 p2, of storage0 "Some (NewManagedStreamOutput 2)"]
      conditional_absent_subnodes_build [OF t3 p3, of storage0 _
        "Some (NewNumberCompareCondition ''value'' ''gt'' 5)"]
      c o
    by simp
qed

section \<open>Remote write backends without settings\<close>

text \<open>
  C9. When the backend a \<^verbatim>\<open>remoteWrite\<close> outputter node refers to (the first entry of
  \<open>remoteWriteBackends\<close> with the node's uid) has no settings, \<open>getRemoteWriteConfig\<close>
  returns a nil settings pointer with \<open>ok = true\<close>, and building the outputter panics with a
  nil pointer dereference instead of returning an error; a load that reaches the node
  panics too.
\<close>

theorem nil_backend_settings_panic:
  assumes "out_Type c = ''remoteWrite''"
    and "out_RemoteWriteOutputConfig c = Some rw"
    and "backend_of (remoteWriteBackends f) (rw_UID rw) = Some rwb"
    and "Settings rwb = None"
  shows "getRemoteWriteConfig f (rw_UID rw) = (None, True) \<and>
    extractOutputter f (Some c) = Inl (Panic NilPointerDereference) \<and>
    (set_Converter (rule_Settings r) = None \<and> set_Processor (rule_Settings r) = None \<and>
     set_Outputter (rule_Settings r) = Some c \<longrightarrow>
       ListChannelRules_range f (r # rest) rules = Panicked NilPointerDereference)"
proof -
  from assms(3,4) have g: "getRemoteWriteConfig f (rw_UID rw) = (None, True)"
    by (simp add: getRemoteWriteConfig_def getRemoteWriteConfig_range_find backend_of_def)
  with assms(1,2) have e: "extractOutputter f (Some c) = Inl (Panic NilPointerDereference)"
    by (cases c) simp
  from g e show ?thesis by simp
qed

theorem nil_backend_settings_panic_witness:
  "backend_of (remoteWriteBackends storage_nil_settings) ''influx'' = Some \<lparr>UID = ''influx'', Settings = None\<rparr> \<and>
   getRemoteWriteConfig storage_nil_settings ''influx'' = (None, True) \<and>
   extractOutputter storage_nil_settings (Some remote_write_influx) = Inl (Panic NilPointerDereference) \<and>
   ListChannelRules_range storage_nil_settings [rule_remote_write_influx] [] = Panicked NilPointerDereference"
proof -
  have t: "out_Type remote_write_influx = ''remoteWrite''"
    and p: "out_RemoteWriteOutputConfig remote_write_influx = Some \<lparr>rw_UID = ''influx''\<rparr>"
    by (simp_all add: remote_write_influx_def)
  have b: "backend_of (remoteWriteBackends storage_nil_settings) (rw_UID \<lparr>rw_UID = ''influx''\<rparr>) =
      Some \<lparr>UID = ''influx'', Settings = None\<rparr>"
    by (simp add: backend_of_def storage_nil_settings_def)
  have s: "Settings \<lparr>UID = ''influx'', Settings = None\<rparr> = None" by simp
  show ?thesis
    using nil_backend_settings_panic [OF t p b s, of rule_remote_write_influx "[]" "[]"] b
    by (simp add: rule_remote_write_influx_def)
qed

section \<open>All-or-nothing load\<close>

lemma ListChannelRules_range_rule_fails:
  assumes "extractConverter f (set_Converter (rule_Settings r)) = Inl (Err e) \<or>
     (\<exists>c. extractConverter f (set_Converter (rule_Settings r)) = Inr c) \<and>
       extractProcessor f (set_Processor (rule_Settings r)) = Inl (Err e) \<or>
     (\<exists>c. extractConverter f (set_Converter (rule_Settings r)) = Inr c) \<and>
     (\<exists>p. extractProcessor f (set_Processor (rule_Settings r)) = Inr p) \<and>
       extractOutputter f (set_Outputter (rule_Settings r)) = Inl (Err e)"
  shows "ListChannelRules_range f (r # post) built = Return ([], Some e)"
  using assms by (elim disjE conjE exE) simp_all

lemma first_defect_rule_mem:
  "r \<in> set rs \<Longrightarrow> first_defect f (rule_nodes r) = Some d \<Longrightarrow>
   \<exists>d'. first_defect f (concat (map rule_nodes rs)) = Some d'"
  by (induction rs) (auto simp: first_defect_append split: option.splits)

lemma ListChannelRules_range_some_rule_fails:
  assumes "r \<in> set rs"
    and "extractConverter f (set_Converter (rule_Settings r)) = Inl x \<or>
       extractProcessor f (set_Processor (rule_Settings r)) = Inl x \<or>
       extractOutputter f (set_Outputter (rule_Settings r)) = Inl x"
  shows "(\<exists>err. ListChannelRules_range f rs acc = Return ([], Some err)) \<or>
         (\<exists>p. ListChannelRules_range f rs acc = Panicked p)"
proof -
  have "first_defect f (rule_nodes r) \<noteq> None"
    using assms(2) unfolding rule_defects by (auto split: sum.splits)
  then obtain d where "first_defect f (rule_nodes r) = Some d" by blast
  from first_defect_rule_mem [OF assms(1) this] obtain d'
    where "first_defect f (concat (map rule_nodes rs)) = Some d'" by blast
  from ListChannelRules_range_defect [OF this, of acc] return_nil_cases [of d']
  show ?thesis by simp
qed

text \<open>
  C4. When the build of a rule's converter, processor or outputter fails with an error,
  \<open>ListChannelRules\<close> returns a nil rule list together with that error, whatever rules
  were built before it (\<open>built\<close>, from the rules \<open>pre\<close> ahead of the failing one). A
  document with any rule one of whose three stages fails to build yields no rules. No part
  of a rule set is ever returned: the call returns all the rules of the document without
  an error, or no rule with an error, or it panics.
\<close>

theorem failed_build_returns_nil_rules:
  assumes "Unmarshal ruleBytes = Inr doc"
    and "f' = f\<lparr>remoteWriteBackends := RemoteWriteBackends doc\<rparr>"
  shows
    "(Rules doc = pre @ r # post \<and>
      ListChannelRules_range f' pre [] = Return (built, None) \<and>
      (extractConverter f' (set_Converter (rule_Settings r)) = Inl (Err e) \<or>
       (\<exists>c. extractConverter f' (set_Converter (rule_Settings r)) = Inr c) \<and>
         extractProcessor f' (set_Processor (rule_Settings r)) = Inl (Err e) \<or>
       (\<exists>c. extractConverter f' (set_Converter (rule_Settings r)) = Inr c) \<and>
       (\<exists>p. extractProcessor f' (set_Processor (rule_Settings r)) = Inr p) \<and>
         extractOutputter f' (set_Outputter (rule_Settings r)) = Inl (Err e)) \<longrightarrow>
      fst (ListChannelRules f Unmarshal ruleBytes) = Return ([], Some e)) \<and>
     (r \<in> set (Rules doc) \<and>
      (extractConverter f' (set_Converter (rule_Settings r)) = Inl x \<or>
       extractProcessor f' (set_Processor (rule_Settings r)) = Inl x \<or>
       extractOutputter f' (set_Outputter (rule_Settings r)) = Inl x) \<longrightarrow>
      (\<exists>err. fst (ListChannelRules f Unmarshal ruleBytes) = Return ([], Some err)) \<or>
      (\<exists>p. fst (ListChannelRules f Unmarshal ruleBytes) = Panicked p)) \<and>
     ((\<exists>rules. fst (ListChannelRules f Unmarshal ruleBytes) = Return (rules, None) \<and>
          map Pattern rules = map rule_Pattern (Rules doc)) \<or>
      (\<exists>err. fst (ListChannelRules f Unmarshal ruleBytes) = Return ([], Some err)) \<or>
      (\<exists>p. fst (ListChannelRules f Unmarshal ruleBytes) = Panicked p))"
proof -
  have L: "fst (ListChannelRules f Unmarshal ruleBytes) = ListChannelRules_range f' (Rules doc) []"
    using assms by (simp add: ListChannelRules_parsed)
  have "fst (ListChannelRules f Unmarshal ruleBytes) = Return ([], Some e)"
    if rules: "Rules doc = pre @ r # post"
      and pre: "ListChannelRules_range f' pre [] = Return (built, None)"
      and fails: "extractConverter f' (set_Converter (rule_Settings r)) = Inl (Err e) \<or>
       (\<exists>c. extractConverter f' (set_Converter (rule_Settings r)) = Inr c) \<and>
         extractProcessor f' (set_Processor (rule_Settings r)) = Inl (Err e) \<or>
       (\<exists>c. extractConverter f' (set_Converter (rule_Settings r)) = Inr c) \<and>
       (\<exists>p. extractProcessor f' (set_Processor (rule_Settings r)) = Inr p) \<and>
         extractOutputter f' (set_Outputter (rule_Settings r)) = Inl (Err e)"
  proof -
    have "ListChannelRules_range f' (pre @ r # post) [] = ListChannelRules_range f' (r # post) built"
      by (rule ListChannelRules_range_append [OF pre])
    also have "\<dots> = Return ([], Some e)"
      by (rule ListChannelRules_range_rule_fails [OF fails])
    finally show ?thesis using L rules by simp
  qed
  moreover have "(\<exists>err. fst (ListChannelRules f Unmarshal ruleBytes) = Return ([], Some err)) \<or>
      (\<exists>p. fst (ListChannelRules f Unmarshal ruleBytes) = Panicked p)"
    if "r \<in> set (Rules doc)"
      and "extractConverter f' (set_Converter (rule_Settings r)) = Inl x \<or>
       extractProcessor f' (set_Processor (rule_Settings r)) = Inl x \<or>
       extractOutputter f' (set_Outputter (rule_Settings r)) = Inl x"
    using ListChannelRules_range_some_rule_fails [OF that, of "[]"] unfolding L .
  moreover have "(\<exists>rules. fst (ListChannelRules f Unmarshal ruleBytes) = Return (rules, None) \<and>
          map Pattern rules = map rule_Pattern (Rules doc)) \<or>
      (\<exists>err. fst (ListChannelRules f Unmarshal ruleBytes) = Return ([], Some err)) \<or>
      (\<exists>p. fst (ListChannelRules f Unmarshal ruleBytes) = Panicked p)"
    using ListChannelRules_range_all_or_nothing [of f' "Rules doc" "[]"] unfolding L by simp
  ultimately show ?thesis by blast
qed

theorem failed_build_returns_nil_rules_witness:
  "ListChannelRules_range storage0 [rule_json_keep_local, rule_managed] [] =
     Return ([\<lparr>Pattern = ''stream/json/*'', Converter = Some (NewAutoJsonConverter ''{}''),
               Processor = Some (NewKeepFieldsProcessor ''{fields: [value]}''),
               Outputter = Some (NewLocalSubscribersOutput 1)\<rparr>,
              \<lparr>Pattern = ''stream/managed/*'', Converter = None, Processor = None,
               Outputter = Some (NewManagedStreamOutput 2)\<rparr>], None) \<and>
   fst (ListChannelRules storage0 (Unmarshal_as doc_third_rule_fails) ''{...}'') =
     Return ([], Some (UnknownProcessorType ''rename''))"
proof -
  let ?built = "[\<lparr>Pattern = ''stream/json/*'', Converter = Some (NewAutoJsonConverter ''{}''),
               Processor = Some (NewKeepFieldsProcessor ''{fields: [value]}''),
               Outputter = Some (NewLocalSubscribersOutput 1)\<rparr>,
              \<lparr>Pattern = ''stream/managed/*'', Converter = None, Processor = None,
               Outputter = Some (NewManagedStreamOutput 2)\<rparr>]"
  have u: "Unmarshal_as doc_third_rule_fails ''{...}'' = Inr doc_third_rule_fails"
    by (simp add: Unmarshal_as_def)
  have s: "storage0 = storage0\<lparr>remoteWriteBackends := RemoteWriteBackends doc_third_rule_fails\<rparr>"
    by (simp add: storage0_def doc_third_rule_fails_def)
  have rules: "Rules doc_third_rule_fails = [rule_json_keep_local, rule_managed] @ rule_rename # [rule_managed]"
    by (simp add: doc_third_rule_fails_def)
  have pre: "ListChannelRules_range storage0 [rule_json_keep_local, rule_managed] [] = Return (?built, None)"
    by (simp add: rule_json_keep_local_def rule_managed_def json_auto_def keep_value_def
        local_subscribers_bare_def managed_stream_bare_def storage0_def)
  have fails: "(\<exists>c. extractConverter storage0 (set_Converter (rule_Settings rule_rename)) = Inr c) \<and>
      extractProcessor storage0 (set_Processor (rule_Settings rule_rename)) =
        Inl (Err (UnknownProcessorType ''rename''))"
    by (simp add: rule_rename_def json_auto_def processor_rename_def)
  show ?thesis
    using failed_build_returns_nil_rules [where Unmarshal = "Unmarshal_as doc_third_rule_fails"
        and ruleBytes = "''{...}''" and doc = doc_third_rule_fails and f = storage0
        and f' = storage0 and pre = "[rule_json_keep_local, rule_managed]" and r = rule_rename
        and post = "[rule_managed]" and built = ?built and e = "UnknownProcessorType ''rename''",
        OF u s]
      rules pre fails
    by simp
qed

section \<open>What a failed load leaves in the storage\<close>

text \<open>
  C5, as amended. A load whose input does not decode returns the decoding error and leaves
  the storage as it was. A load whose input decodes assigns the document's
  \<^verbatim>\<open>remoteWriteBackends\<close> to the storage before any rule is built, so the stored backend
  list is the new document's whether the build then succeeds, fails or panics; the other
  fields of the storage are never changed.
\<close>

theorem load_replaces_backends_before_build:
  "(Unmarshal ruleBytes = Inl err \<longrightarrow>
      ListChannelRules f Unmarshal ruleBytes = (Return ([], Some err), f)) \<and>
   (Unmarshal ruleBytes = Inr doc \<longrightarrow>
      snd (ListChannelRules f Unmarshal ruleBytes) =
        f\<lparr>remoteWriteBackends := RemoteWriteBackends doc\<rparr>)"
  by (simp add: ListChannelRules_def Let_def)

theorem load_replaces_backends_before_build_witness:
  "ListChannelRules storage_prod (Unmarshal_as doc_csv_staging) [] =
     (Return ([], Some (JSONError ''unexpected end of JSON input'')), storage_prod) \<and>
   snd (ListChannelRules storage_prod (Unmarshal_as doc_csv_staging) ''{...}'') =
     storage_prod\<lparr>remoteWriteBackends := [\<lparr>UID = ''staging'', Settings = Some ''{endpoint: staging}''\<rparr>]\<rparr>"
proof -
  have u1: "Unmarshal_as doc_csv_staging [] = Inl (JSONError ''unexpected end of JSON input'')"
    and u2: "Unmarshal_as doc_csv_staging ''{...}'' = Inr doc_csv_staging"
    by (simp_all add: Unmarshal_as_def)
  show ?thesis
    using load_replaces_backends_before_build [of "Unmarshal_as doc_csv_staging" "[]"
        "JSONError ''unexpected end of JSON input''" storage_prod]
      load_replaces_backends_before_build [of "Unmarshal_as doc_csv_staging" "''{...}''" _
        storage_prod doc_csv_staging]
      u1 u2
    by (simp add: doc_csv_staging_def)
qed

text \<open>
  C5 as stated fails: the document decodes, its only rule has the unknown converter type
  \<^verbatim>\<open>csv\<close>, the load returns that error, and the stored backend list is already the new
  document's (\<^verbatim>\<open>staging\<close>), not the one held before (\<^verbatim>\<open>prod\<close>).
\<close>

theorem failed_load_replaces_backends_counterexample:
  "fst (ListChannelRules storage_prod (Unmarshal_as doc_csv_staging) ''{...}'') =
     Return ([], Some (UnknownConverterType ''csv'')) \<and>
   remoteWriteBackends storage_prod = [\<lparr>UID = ''prod'', Settings = Some ''{endpoint: prod}''\<rparr>] \<and>
   remoteWriteBackends (snd (ListChannelRules storage_prod (Unmarshal_as doc_csv_staging) ''{...}'')) =
     [\<lparr>UID = ''staging'', Settings = Some ''{endpoint: staging}''\<rparr>]"
  by (simp add: ListChannelRules_def Let_def Unmarshal_as_def doc_csv_staging_def rule_csv_def
      converter_csv_def storage_prod_def)

section \<open>Multiple nodes\<close>

lemma extractProcessor_range_built:
  "list_all2 (\<lambda>c r. extractProcessor f (Some c) = Inr r) cs rs \<Longrightarrow>
   extractProcessor_range f cs acc = Inr (acc @ rs)"
  by (induction cs rs arbitrary: acc rule: list_all2_induct) simp_all

lemma extractProcessor_range_first_failure:
  "\<forall>p\<in>set pre. \<exists>r. extractProcessor f (Some p) = Inr r \<Longrightarrow>
   extractProcessor f (Some c) = Inl e \<Longrightarrow>
   extractProcessor_range f (pre @ c # post) acc = Inl e"
  by (induction pre arbitrary: acc) auto

lemma extractProcessor_range_some_failure:
  "c \<in> set cs \<Longrightarrow> extractProcessor f (Some c) = Inl e \<Longrightarrow>
   \<exists>e'. extractProcessor_range f cs acc = Inl e'"
  by (induction cs arbitrary: acc) (auto split: sum.splits)

lemma extractProcessor_multiple:
  assumes "proc_Type c = ''multiple''"
    and "proc_MultipleProcessorConfig c = Some m"
  shows "extractProcessor f (Some c) =
    (case extractProcessor_range f (Processors m) [] of
       Inl err \<Rightarrow> Inl err
     | Inr processors \<Rightarrow> Inr (Some (NewMultipleProcessor processors)))"
  using assms by (cases c; cases m) (simp split: sum.splits)

lemma extractConditionChecker_range_built:
  "list_all2 (\<lambda>c r. extractConditionChecker f (Some c) = Inr r) cs rs \<Longrightarrow>
   extractConditionChecker_range f cs acc = Inr (acc @ rs)"
  by (induction cs rs arbitrary: acc rule: list_all2_induct) simp_all

lemma extractConditionChecker_range_first_failure:
  "\<forall>p\<in>set pre. \<exists>r. extractConditionChecker f (Some p) = Inr r \<Longrightarrow>
   extractConditionChecker f (Some c) = Inl e \<Longrightarrow>
   extractConditionChecker_range f (pre @ c # post) acc = Inl e"
  by (induction pre arbitrary: acc) auto

lemma extractConditionChecker_range_some_failure:
  "c \<in> set cs \<Longrightarrow> extractConditionChecker f (Some c) = Inl e \<Longrightarrow>
   \<exists>e'. extractConditionChecker_range f cs acc = Inl e'"
  by (induction cs arbitrary: acc) (auto split: sum.splits)

lemma extractConditionChecker_multiple:
  assumes "cond_Type c = ''multiple''"
    and "cond_MultipleConditionCheckerConfig c = Some m"
  shows "extractConditionChecker f (Some c) =
    (case extractConditionChecker_range f (Conditions m) [] of
       Inl err \<Rightarrow> Inl err
     | Inr conditions \<Rightarrow> Inr (Some (NewMultipleConditionChecker (multi_Type m) conditions)))"
  using assms by (cases c; cases m) (simp split: sum.splits)

lemma extractOutputter_range_built:
  "list_all2 (\<lambda>c r. extractOutputter f (Some c) = Inr r) cs rs \<Longrightarrow>
   extractOutputter_range f cs acc = Inr (acc @ rs)"
  by (induction cs rs arbitrary: acc rule: list_all2_induct) simp_all

lemma extractOutputter_range_first_failure:
  "\<forall>p\<in>set pre. \<exists>r. extractOutputter f (Some p) = Inr r \<Longrightarrow>
   extractOutputter f (Some c) = Inl e \<Longrightarrow>
   extractOutputter_range f (pre @ c # post) acc = Inl e"
  by (induction pre arbitrary: acc) auto

lemma extractOutputter_range_some_failure:
  "c \<in> set cs \<Longrightarrow> extractOutputter f (Some c) = Inl e \<Longrightarrow>
   \<exists>e'. extractOutputter_range f cs acc = Inl e'"
  by (induction cs arbitrary: acc) (auto split: sum.splits)

lemma extractOutputter_multiple:
  assumes "out_Type c = ''multiple''"
    and "out_MultipleOutputterConfig c = Some m"
  shows "extractOutputter f (Some c) =
    (case extractOutputter_range f (Outputters m) [] of
       Inl err \<Rightarrow> Inl err
     | Inr outputters \<Rightarrow> Inr (Some (NewMultipleOutputter outputters)))"
  using assms by (cases c; cases m) (simp split: sum.splits)


text \<open>
  C7. For a \<^verbatim>\<open>multiple\<close> processor, condition checker or outputter node with its payload
  present, each child is resolved by the same extractor that resolves a top-level node, from
  the left. When every child builds, the composite is constructed from the built children
  in declared order. The first child that fails to build ends the build of the node with
  that child's error, and a node with any child that fails to build does not build.
\<close>

theorem multiple_builds_children_in_order:
  "(proc_Type pc = ''multiple'' \<and> proc_MultipleProcessorConfig pc = Some pm \<longrightarrow>
      (list_all2 (\<lambda>c r. extractProcessor f (Some c) = Inr r) (Processors pm) prs \<longrightarrow>
         extractProcessor f (Some pc) = Inr (Some (NewMultipleProcessor prs))) \<and>
      (Processors pm = ppre @ pchild # ppost \<and>
       (\<forall>p\<in>set ppre. \<exists>r. extractProcessor f (Some p) = Inr r) \<and>
       extractProcessor f (Some pchild) = Inl e \<longrightarrow>
         extractProcessor f (Some pc) = Inl e) \<and>
      (pchild \<in> set (Processors pm) \<and> extractProcessor f (Some pchild) = Inl e \<longrightarrow>
         (\<exists>e'. extractProcessor f (Some pc) = Inl e'))) \<and>
   (cond_Type cc = ''multiple'' \<and> cond_MultipleConditionCheckerConfig cc = Some cm \<longrightarrow>
      (list_all2 (\<lambda>c r. extractConditionChecker f (Some c) = Inr r) (Conditions cm) crs \<longrightarrow>
         extractConditionChecker f (Some cc) =
           Inr (Some (NewMultipleConditionChecker (multi_Type cm) crs))) \<and>
      (Conditions cm = cpre @ cchild # cpost \<and>
       (\<forall>p\<in>set cpre. \<exists>r. extractConditionChecker f (Some p) = Inr r) \<and>
       extractConditionChecker f (Some cchild) = Inl e \<longrightarrow>
         extractConditionChecker f (Some cc) = Inl e) \<and>
      (cchild \<in> set (Conditions cm) \<and> extractConditionChecker f (Some cchild) = Inl e \<longrightarrow>
         (\<exists>e'. extractConditionChecker f (Some cc) = Inl e'))) \<and>
   (out_Type oc = ''multiple'' \<and> out_MultipleOutputterConfig oc = Some om \<longrightarrow>
      (list_all2 (\<lambda>c r. extractOutputter f (Some c) = Inr r) (Outputters om) ors \<longrightarrow>
         extractOutputter f (Some oc) = Inr (Some (NewMultipleOutputter ors))) \<and>
      (Outputters om = opre @ ochild # opost \<and>
       (\<forall>p\<in>set opre. \<exists>r. extractOutputter f (Some p) = Inr r) \<and>
       extractOutputter f (Some ochild) = Inl e \<longrightarrow>
         extractOutputter f (Some oc) = Inl e) \<and>
      (ochild \<in> set (Outputters om) \<and> extractOutputter f (Some ochild) = Inl e \<longrightarrow>
         (\<exists>e'. extractOutputter f (Some oc) = Inl e')))"
proof (intro conjI impI; elim conjE)
  assume n: "proc_Type pc = ''multiple''" "proc_MultipleProcessorConfig pc = Some pm"
  {
    assume "list_all2 (\<lambda>c r. extractProcessor f (Some c) = Inr r) (Processors pm) prs"
    from extractProcessor_range_built [OF this, of "[]"]
    show "extractProcessor f (Some pc) = Inr (Some (NewMultipleProcessor prs))"
      by (simp add: extractProcessor_multiple [OF n])
  next
    assume "Processors pm = ppre @ pchild # ppost"
      and "\<forall>p\<in>set ppre. \<exists>r. extractProcessor f (Some p) = Inr r"
      and "extractProcessor f (Some pchild) = Inl e"
    with extractProcessor_range_first_failure [of ppre f pchild e ppost "[]"]
    show "extractProcessor f (Some pc) = Inl e"
      by (simp add: extractProcessor_multiple [OF n])
  next
    assume "pchild \<in> set (Processors pm)" and "extractProcessor f (Some pchild) = Inl e"
    from extractProcessor_range_some_failure [OF this, of "[]"]
    show "\<exists>e'. extractProcessor f (Some pc) = Inl e'"
      by (auto simp add: extractProcessor_multiple [OF n])
  }
next
  assume n: "cond_Type cc = ''multiple''" "cond_MultipleConditionCheckerConfig cc = Some cm"
  {
    assume "list_all2 (\<lambda>c r. extractConditionChecker f (Some c) = Inr r) (Conditions cm) crs"
    from extractConditionChecker_range_built [OF this, of "[]"]
    show "extractConditionChecker f (Some cc) =
        Inr (Some (NewMultipleConditionChecker (multi_Type cm) crs))"
      by (simp add: extractConditionChecker_multiple [OF n])
  next
    assume "Conditions cm = cpre @ cchild # cpost"
      and "\<forall>p\<in>set cpre. \<exists>r. extractConditionChecker f (Some p) = Inr r"
      and "extractConditionChecker f (Some cchild) = Inl e"
    with extractConditionChecker_range_first_failure [of cpre f cchild e cpost "[]"]
    show "extractConditionChecker f (Some cc) = Inl e"
      by (simp add: extractConditionChecker_multiple [OF n])
  next
    assume "cchild \<in> set (Conditions cm)" and "extractConditionChecker f (Some cchild) = Inl e"
    from extractConditionChecker_range_some_failure [OF this, of "[]"]
    show "\<exists>e'. extractConditionChecker f (Some cc) = Inl e'"
      by (auto simp add: extractConditionChecker_multiple [OF n])
  }
next
  assume n: "out_Type oc = ''multiple''" "out_MultipleOutputterConfig oc = Some om"
  {
    assume "list_all2 (\<lambda>c r. extractOutputter f (Some c) = Inr r) (Outputters om) ors"
    from extractOutputter_range_built [OF this, of "[]"]
    show "extractOutputter f (Some oc) = Inr (Some (NewMultipleOutputter ors))"
      by (simp add: extractOutputter_multiple [OF n])
  next
    assume "Outputters om = opre @ ochild # opost"
      and "\<forall>p\<in>set opre. \<exists>r. extractOutputter f (Some p) = Inr r"
      and "extractOutputter f (Some ochild) = Inl e"
    with extractOutputter_range_first_failure [of opre f ochild e opost "[]"]
    show "extractOutputter f (Some oc) = Inl e"
      by (simp add: extractOutputter_multiple [OF n])
  next
    assume "ochild \<in> set (Outputters om)" and "extractOutputter f (Some ochild) = Inl e"
    from extractOutputter_range_some_failure [OF this, of "[]"]
    show "\<exists>e'. extractOutputter f (Some oc) = Inl e'"
      by (auto simp add: extractOutputter_multiple [OF n])
  }
qed


theorem multiple_builds_children_in_order_witness:
  "extractProcessor storage0 (Some multiple_keep_drop) =
     Inr (Some (NewMultipleProcessor
       [Some (NewKeepFieldsProcessor ''{fields: [value]}''),
        Some (NewDropFieldsProcessor ''{fields: [secret]}'')])) \<and>
   extractConditionChecker storage0 (Some multiple_all_hot) =
     Inr (Some (NewMultipleConditionChecker ''and''
       [Some (NewNumberCompareCondition ''value'' ''gt'' 5),
        Some (NewNumberCompareCondition ''value'' ''gt'' 5)])) \<and>
   extractOutputter storage0 (Some multiple_managed_local) =
     Inr (Some (NewMultipleOutputter
       [Some (NewManagedStreamOutput 2), Some (NewLocalSubscribersOutput 1)])) \<and>
   extractProcessor storage0 (Some multiple_keep_rename_drop) = Inl (Err (UnknownProcessorType ''rename'')) \<and>
   extractConditionChecker storage0 (Some multiple_any_hot_regex) = Inl (Err (UnknownConditionType ''regex'')) \<and>
   extractOutputter storage0 (Some multiple_managed_threshold_local) =
     Inl (Err (MissingConfiguration ''threshold''))"
proof -
  have children:
    "extractProcessor storage0 (Some keep_value) = Inr (Some (NewKeepFieldsProcessor ''{fields: [value]}''))"
    "extractProcessor storage0 (Some drop_secret) = Inr (Some (NewDropFieldsProcessor ''{fields: [secret]}''))"
    "extractProcessor storage0 (Some processor_rename) = Inl (Err (UnknownProcessorType ''rename''))"
    "extractConditionChecker storage0 (Some number_compare_hot) =
       Inr (Some (NewNumberCompareCondition ''value'' ''gt'' 5))"
    "extractConditionChecker storage0 (Some condition_regex) = Inl (Err (UnknownConditionType ''regex''))"
    "extractOutputter storage0 (Some managed_stream_bare) = Inr (Some (NewManagedStreamOutput 2))"
    "extractOutputter storage0 (Some local_subscribers_bare) = Inr (Some (NewLocalSubscribersOutput 1))"
    "extractOutputter storage0 (Some threshold_bare) = Inl (Err (MissingConfiguration ''threshold''))"
    by (simp_all add: keep_value_def drop_secret_def processor_rename_def number_compare_hot_def
        condition_regex_def managed_stream_bare_def local_subscribers_bare_def threshold_bare_def
        storage0_def)
  have nodes:
    "proc_Type multiple_keep_drop = ''multiple''"
    "proc_MultipleProcessorConfig multiple_keep_drop = Some (MultipleProcessorConfig [keep_value, drop_secret])"
    "cond_Type multiple_all_hot = ''multiple''"
    "cond_MultipleConditionCheckerConfig multiple_all_hot =
       Some (MultipleConditionCheckerConfig ''and'' [number_compare_hot, number_compare_hot])"
    "out_Type multiple_managed_local = ''multiple''"
    "out_MultipleOutputterConfig multiple_managed_local =
       Some (MultipleOutputterConfig [managed_stream_bare, local_subscribers_bare])"
    "proc_Type multiple_keep_rename_drop = ''multiple''"
    "proc_MultipleProcessorConfig multiple_keep_rename_drop =
       Some (MultipleProcessorConfig ([keep_value] @ processor_rename # [drop_secret]))"
    "cond_Type multiple_any_hot_regex = ''multiple''"
    "cond_MultipleConditionCheckerConfig multiple_any_hot_regex =
       Some (MultipleConditionCheckerConfig ''or'' ([number_compare_hot] @ condition_regex # []))"
    "out_Type multiple_managed_threshold_local = ''multiple''"
    "out_MultipleOutputterConfig multiple_managed_threshold_local =
       Some (MultipleOutputterConfig ([managed_stream_bare] @ threshold_bare # [local_subscribers_bare]))"
    by (simp_all add: multiple_keep_drop_def multiple_all_hot_def multiple_managed_local_def
        multiple_keep_rename_drop_def multiple_any_hot_regex_def multiple_managed_threshold_local_def)
  have p_ok: "extractProcessor storage0 (Some multiple_keep_drop) =
      Inr (Some (NewMultipleProcessor
        [Some (NewKeepFieldsProcessor ''{fields: [value]}''),
         Some (NewDropFieldsProcessor ''{fields: [secret]}'')]))"
  proof (rule multiple_builds_children_in_order
      [THEN conjunct1, THEN mp, THEN conjunct1, THEN mp])
    show "proc_Type multiple_keep_drop = ''multiple'' \<and>
      proc_MultipleProcessorConfig multiple_keep_drop = Some (MultipleProcessorConfig [keep_value, drop_secret])"
      using nodes(1,2) by simp
    show "list_all2 (\<lambda>c r. extractProcessor storage0 (Some c) = Inr r)
      (Processors (MultipleProcessorConfig [keep_value, drop_secret]))
      [Some (NewKeepFieldsProcessor ''{fields: [value]}''),
       Some (NewDropFieldsProcessor ''{fields: [secret]}'')]"
      using children(1,2) by simp
  qed
  have c_ok: "extractConditionChecker storage0 (Some multiple_all_hot) =
      Inr (Some (NewMultipleConditionChecker ''and''
        [Some (NewNumberCompareCondition ''value'' ''gt'' 5),
         Some (NewNumberCompareCondition ''value'' ''gt'' 5)]))"
  proof -
    have "extractConditionChecker storage0 (Some multiple_all_hot) =
      Inr (Some (NewMultipleConditionChecker
        (multi_Type (MultipleConditionCheckerConfig ''and'' [number_compare_hot, number_compare_hot]))
        [Some (NewNumberCompareCondition ''value'' ''gt'' 5),
         Some (NewNumberCompareCondition ''value'' ''gt'' 5)]))"
    proof (rule multiple_builds_children_in_order
        [THEN conjunct2, THEN conjunct1, THEN mp, THEN conjunct1, THEN mp])
      show "cond_Type multiple_all_hot = ''multiple'' \<and>
        cond_MultipleConditionCheckerConfig multiple_all_hot =
          Some (MultipleConditionCheckerConfig ''and'' [number_compare_hot, number_compare_hot])"
        using nodes(3,4) by simp
      show "list_all2 (\<lambda>c r. extractConditionChecker storage0 (Some c) = Inr r)
        (Conditions (MultipleConditionCheckerConfig ''and'' [number_compare_hot, number_compare_hot]))
        [Some (NewNumberCompareCondition ''value'' ''gt'' 5),
         Some (NewNumberCompareCondition ''value'' ''gt'' 5)]"
        using children(4) by simp
    qed
    then show ?thesis by simp
  qed
  have o_ok: "extractOutputter storage0 (Some multiple_managed_local) =
      Inr (Some (NewMultipleOutputter
        [Some (NewManagedStreamOutput 2), Some (NewLocalSubscribersOutput 1)]))"
  proof (rule multiple_builds_children_in_order
      [THEN conjunct2, THEN conjunct2, THEN mp, THEN conjunct1, THEN mp])
    show "out_Type multiple_managed_local = ''multiple'' \<and>
      out_MultipleOutputterConfig multiple_managed_local =
        Some (MultipleOutputterConfig [managed_stream_bare, local_subscribers_bare])"
      using nodes(5,6) by simp
    show "list_all2 (\<lambda>c r. extractOutputter storage0 (Some c) = Inr r)
      (Outputters (MultipleOutputterConfig [managed_stream_bare, local_subscribers_bare]))
      [Some (NewManagedStreamOutput 2), Some (NewLocalSubscribersOutput 1)]"
      using children(6,7) by simp
  qed
  have p_fail: "extractProcessor storage0 (Some multiple_keep_rename_drop) =
      Inl (Err (UnknownProcessorType ''rename''))"
  proof (rule multiple_builds_children_in_order
      [THEN conjunct1, THEN mp, THEN conjunct2, THEN conjunct1, THEN mp])
    show "proc_Type multiple_keep_rename_drop = ''multiple'' \<and>
      proc_MultipleProcessorConfig multiple_keep_rename_drop =
        Some (MultipleProcessorConfig ([keep_value] @ processor_rename # [drop_secret]))"
      using nodes(7,8) by simp
    show "Processors (MultipleProcessorConfig ([keep_value] @ processor_rename # [drop_secret])) =
        [keep_value] @ processor_rename # [drop_secret] \<and>
      (\<forall>p\<in>set [keep_value]. \<exists>r. extractProcessor storage0 (Some p) = Inr r) \<and>
      extractProcessor storage0 (Some processor_rename) = Inl (Err (UnknownProcessorType ''rename''))"
      using children(1,3) by simp
  qed
  have c_fail: "extractConditionChecker storage0 (Some multiple_any_hot_regex) =
      Inl (Err (UnknownConditionType ''regex''))"
  proof (rule multiple_builds_children_in_order
      [THEN conjunct2, THEN conjunct1, THEN mp, THEN conjunct2, THEN conjunct1, THEN mp])
    show "cond_Type multiple_any_hot_regex = ''multiple'' \<and>
      cond_MultipleConditionCheckerConfig multiple_any_hot_regex =
        Some (MultipleConditionCheckerConfig ''or'' ([number_compare_hot] @ condition_regex # []))"
      using nodes(9,10) by simp
    show "Conditions (MultipleConditionCheckerConfig ''or'' ([number_compare_hot] @ condition_regex # [])) =
        [number_compare_hot] @ condition_regex # [] \<and>
      (\<forall>p\<in>set [number_compare_hot]. \<exists>r. extractConditionChecker storage0 (Some p) = Inr r) \<and>
      extractConditionChecker storage0 (Some condition_regex) = Inl (Err (UnknownConditionType ''regex''))"
      using children(4,5) by simp
  qed
  have o_fail: "extractOutputter storage0 (Some multiple_managed_threshold_local) =
      Inl (Err (MissingConfiguration ''threshold''))"
  proof (rule multiple_builds_children_in_order
      [THEN conjunct2, THEN conjunct2, THEN mp, THEN conjunct2, THEN conjunct1, THEN mp])
    show "out_Type multiple_managed_threshold_local = ''multiple'' \<and>
      out_MultipleOutputterConfig multiple_managed_threshold_local =
        Some (MultipleOutputterConfig ([managed_stream_bare] @ threshold_bare # [local_subscribers_bare]))"
      using nodes(11,12) by simp
    show "Outputters (MultipleOutputterConfig ([managed_stream_bare] @ threshold_bare # [local_subscribers_bare])) =
        [managed_stream_bare] @ threshold_bare # [local_subscribers_bare] \<and>
      (\<forall>p\<in>set [managed_stream_bare]. \<exists>r. extractOutputter storage0 (Some p) = Inr r) \<and>
      extractOutputter storage0 (Some threshold_bare) = Inl (Err (MissingConfiguration ''threshold''))"
      using children(6,8) by simp
  qed
  from p_ok c_ok o_ok p_fail c_fail o_fail show ?thesis by blast
qed

section \<open>Defects anywhere in the document\<close>

lemma load_visits_defect:
  assumes "Unmarshal ruleBytes = Inr doc"
    and "f' = f\<lparr>remoteWriteBackends := RemoteWriteBackends doc\<rparr>"
    and "n \<in> set (document_nodes doc)"
    and "node_defect f' n = Some d"
  shows "(\<exists>e. fst (ListChannelRules f Unmarshal ruleBytes) = Return ([], Some e)) \<or>
         (\<exists>p. fst (ListChannelRules f Unmarshal ruleBytes) = Panicked p)"
proof -
  from first_defect_Some_mem [OF assms(3,4)] obtain d'
    where "first_defect f' (concat (map rule_nodes (Rules doc))) = Some d'"
    unfolding document_nodes_def by blast
  from ListChannelRules_range_defect [OF this, of "[]"] assms(1,2)
  have "fst (ListChannelRules f Unmarshal ruleBytes) = return_nil d'"
    by (simp add: ListChannelRules_parsed)
  with return_nil_cases [of d'] show ?thesis by simp
qed

lemma load_first_defect:
  assumes "Unmarshal ruleBytes = Inr doc"
    and "f' = f\<lparr>remoteWriteBackends := RemoteWriteBackends doc\<rparr>"
    and "document_nodes doc = pre @ n # post"
    and "\<forall>m\<in>set pre. node_defect f' m = None"
    and "node_defect f' n = Some (Err e)"
  shows "fst (ListChannelRules f Unmarshal ruleBytes) = Return ([], Some e)"
proof -
  from first_defect_first [OF assms(4,5), of post] assms(3)
  have "first_defect f' (concat (map rule_nodes (Rules doc))) = Some (Err e)"
    unfolding document_nodes_def by simp
  from ListChannelRules_range_defect [OF this, of "[]"] assms(1,2)
  show ?thesis by (simp add: ListChannelRules_parsed)
qed

lemma unknown_type_defect:
  "unknown_type n \<Longrightarrow> node_defect f n = Some (Err (unknown_type_error n))"
  by (simp add: node_defect_def)

lemma unknown_type_error_names_type:
  "\<exists>prefix. Error_text (unknown_type_error n) = prefix @ node_type n"
  by (cases n) simp_all

lemma dangling_uid_defect:
  assumes "out_Type c = ''remoteWrite''"
    and "out_RemoteWriteOutputConfig c = Some rw"
    and "rw_UID rw \<notin> UID ` set (remoteWriteBackends f)"
  shows "node_defect f (OutputterNode c) = Some (Err (UnknownRemoteWriteBackendUid (rw_UID rw)))"
proof -
  from assms(3) have "find (\<lambda>rwb. UID rwb = rw_UID rw) (remoteWriteBackends f) = None"
    by (force simp: find_None_iff image_iff)
  with assms(1,2) show ?thesis
    by (simp add: node_defect_def unknown_type_def outputter_types_def payload_free_def
        remote_write_defect_def backend_of_def)
qed

lemma resolved_uid_builds:
  assumes "out_Type c = ''remoteWrite''"
    and "out_RemoteWriteOutputConfig c = Some rw"
    and "backend_of (remoteWriteBackends f) (rw_UID rw) = Some rwb"
    and "Settings rwb = Some settings"
  shows "extractOutputter f (Some c) = Inr (Some (NewRemoteWriteOutput settings))"
proof -
  from assms(3,4) have "getRemoteWriteConfig f (rw_UID rw) = (Some settings, True)"
    by (simp add: getRemoteWriteConfig_def getRemoteWriteConfig_range_find backend_of_def)
  with assms(1,2) show ?thesis by (cases c) simp
qed

section \<open>Unknown types\<close>

text \<open>
  C1, as amended. A node whose \<open>type\<close> is none of the discriminators of its kind fails to
  build with the "unknown ... type" error of its kind, whose text ends with the type. When
  such a node is in the tree of a rule, at any depth (a child counting under the payload its
  parent's type selects), the load returns no rules: it returns nil rules with an error, or
  panics at an earlier node. The load stops at the first defective node in build order, so
  the error it returns is this node's when no node ahead of it in build order has a defect
  of its own.
\<close>

theorem unknown_type_fails_load:
  assumes "Unmarshal ruleBytes = Inr doc"
    and "f' = f\<lparr>remoteWriteBackends := RemoteWriteBackends doc\<rparr>"
    and "unknown_type n"
  shows
    "build_failure f' n = Some (Err (unknown_type_error n)) \<and>
     (\<exists>prefix. Error_text (unknown_type_error n) = prefix @ node_type n) \<and>
     (n \<in> set (document_nodes doc) \<longrightarrow>
        (\<exists>e. fst (ListChannelRules f Unmarshal ruleBytes) = Return ([], Some e)) \<or>
        (\<exists>p. fst (ListChannelRules f Unmarshal ruleBytes) = Panicked p)) \<and>
     (document_nodes doc = pre @ n # post \<and> (\<forall>m\<in>set pre. node_defect f' m = None) \<longrightarrow>
        fst (ListChannelRules f Unmarshal ruleBytes) = Return ([], Some (unknown_type_error n)))"
proof -
  note d = unknown_type_defect [OF assms(3), of f']
  have "build_failure f' n = Some (Err (unknown_type_error n))"
    by (rule build_failure_first_defect [OF d])
  moreover note unknown_type_error_names_type [of n]
  moreover have "(\<exists>e. fst (ListChannelRules f Unmarshal ruleBytes) = Return ([], Some e)) \<or>
        (\<exists>p. fst (ListChannelRules f Unmarshal ruleBytes) = Panicked p)"
    if "n \<in> set (document_nodes doc)"
    by (rule load_visits_defect [where Unmarshal = Unmarshal and ruleBytes = ruleBytes,
          OF assms(1,2) that d])
  moreover have "fst (ListChannelRules f Unmarshal ruleBytes) = Return ([], Some (unknown_type_error n))"
    if "document_nodes doc = pre @ n # post" and "\<forall>m\<in>set pre. node_defect f' m = None"
    by (rule load_first_defect [where Unmarshal = Unmarshal and ruleBytes = ruleBytes,
          OF assms(1,2) that d])
  ultimately show ?thesis by blast
qed


theorem unknown_type_fails_load_witness:
  "unknown_type (ConditionCheckerNode condition_regex) \<and>
   ConditionCheckerNode condition_regex \<in> set (document_nodes doc_nested_regex) \<and>
   extractConditionChecker storage0 (Some condition_regex) = Inl (Err (UnknownConditionType ''regex'')) \<and>
   fst (ListChannelRules storage0 (Unmarshal_as doc_nested_regex) ''{...}'') =
     Return ([], Some (UnknownConditionType ''regex''))"
proof -
  let ?pre = "[OutputterNode managed_stream_bare, ConverterNode json_auto, ProcessorNode keep_value,
    OutputterNode multiple_managed_conditional, OutputterNode managed_stream_bare,
    OutputterNode conditional_any_local, ConditionCheckerNode multiple_any_hot_regex,
    ConditionCheckerNode number_compare_hot]"
  let ?post = "[OutputterNode local_subscribers_bare]"
  have u: "Unmarshal_as doc_nested_regex ''{...}'' = Inr doc_nested_regex"
    by (simp add: Unmarshal_as_def)
  have s: "storage0 = storage0\<lparr>remoteWriteBackends := RemoteWriteBackends doc_nested_regex\<rparr>"
    by (simp add: storage0_def doc_nested_regex_def)
  have t: "unknown_type (ConditionCheckerNode condition_regex)"
    by (simp add: unknown_type_def condition_types_def condition_regex_def)
  have cond: "condition_nodes multiple_any_hot_regex =
      [ConditionCheckerNode multiple_any_hot_regex, ConditionCheckerNode number_compare_hot,
       ConditionCheckerNode condition_regex]"
    by (simp add: multiple_any_hot_regex_def number_compare_hot_def condition_regex_def)
  have leaf: "outputter_nodes managed_stream_bare = [OutputterNode managed_stream_bare]"
    "outputter_nodes local_subscribers_bare = [OutputterNode local_subscribers_bare]"
    "processor_nodes keep_value = [ProcessorNode keep_value]"
    by (simp_all add: managed_stream_bare_def local_subscribers_bare_def keep_value_def)
  have cnd: "outputter_nodes conditional_any_local =
      OutputterNode conditional_any_local # condition_nodes multiple_any_hot_regex @
      outputter_nodes local_subscribers_bare"
    by (simp add: conditional_any_local_def)
  have mul: "outputter_nodes multiple_managed_conditional =
      OutputterNode multiple_managed_conditional # outputter_nodes managed_stream_bare @
      outputter_nodes conditional_any_local"
    by (simp add: multiple_managed_conditional_def)
  have nodes: "document_nodes doc_nested_regex = ?pre @ ConditionCheckerNode condition_regex # ?post"
    by (simp add: document_nodes_def doc_nested_regex_def rule_nodes_def rule_managed_def
        rule_nested_def mul cnd cond leaf)
  have ok: "node_defect storage0 (OutputterNode managed_stream_bare) = None"
    "node_defect storage0 (ConverterNode json_auto) = None"
    "node_defect storage0 (ProcessorNode keep_value) = None"
    "node_defect storage0 (OutputterNode multiple_managed_conditional) = None"
    "node_defect storage0 (OutputterNode conditional_any_local) = None"
    "node_defect storage0 (ConditionCheckerNode multiple_any_hot_regex) = None"
    "node_defect storage0 (ConditionCheckerNode number_compare_hot) = None"
    by (simp_all add: managed_stream_bare_def json_auto_def keep_value_def
        multiple_managed_conditional_def conditional_any_local_def multiple_any_hot_regex_def
        number_compare_hot_def converter_defect processor_node_defect condition_node_defect
        outputter_node_defect)
  from ok have pre: "\<forall>m\<in>set ?pre. node_defect storage0 m = None" by simp
  from nodes have mem: "ConditionCheckerNode condition_regex \<in> set (document_nodes doc_nested_regex)"
    by simp
  note w = unknown_type_fails_load [where Unmarshal = "Unmarshal_as doc_nested_regex"
      and ruleBytes = "''{...}''" and pre = ?pre and post = ?post, OF u s t]
  from w have "build_failure storage0 (ConditionCheckerNode condition_regex) =
      Some (Err (unknown_type_error (ConditionCheckerNode condition_regex)))" by blast
  then have b: "extractConditionChecker storage0 (Some condition_regex) =
      Inl (Err (UnknownConditionType ''regex''))"
    by (simp add: condition_regex_def split: sum.splits)
  from w nodes pre
  have "fst (ListChannelRules storage0 (Unmarshal_as doc_nested_regex) ''{...}'') =
      Return ([], Some (unknown_type_error (ConditionCheckerNode condition_regex)))" by blast
  then have l: "fst (ListChannelRules storage0 (Unmarshal_as doc_nested_regex) ''{...}'') =
      Return ([], Some (UnknownConditionType ''regex''))"
    by (simp add: condition_regex_def)
  from t mem b l show ?thesis by blast
qed

text \<open>
  C1 as stated fails where two nodes are defective: the only rule of the document has a
  converter of the unknown type \<^verbatim>\<open>csv\<close> and a processor of the unknown type
  \<^verbatim>\<open>rename\<close>; the load returns the converter's error, which does not name \<^verbatim>\<open>rename\<close>.
  It fails too for a node under a payload that its parent's type does not select: a
  \<^verbatim>\<open>redirect\<close> outputter that also carries a \<^verbatim>\<open>multiple\<close> payload with a child of the
  unknown type \<^verbatim>\<open>kafka\<close> builds, and the load returns its rule.
\<close>

theorem second_unknown_type_counterexample:
  "unknown_type (ProcessorNode processor_rename) \<and>
   node_type (ProcessorNode processor_rename) = ''rename'' \<and>
   ProcessorNode processor_rename \<in> set (document_nodes doc_csv_rename) \<and>
   fst (ListChannelRules storage0 (Unmarshal_as doc_csv_rename) ''{...}'') =
     Return ([], Some (UnknownConverterType ''csv'')) \<and>
   Error_text (UnknownConverterType ''csv'') = ''unknown converter type: csv'' \<and>
   unknown_type (OutputterNode outputter_kafka) \<and>
   out_MultipleOutputterConfig redirect_stray_kafka = Some (MultipleOutputterConfig [outputter_kafka]) \<and>
   fst (ListChannelRules storage0 (Unmarshal_as doc_redirect_stray_kafka) ''{...}'') =
     Return ([\<lparr>Pattern = ''stream/redirect/*'', Converter = None, Processor = None,
               Outputter = Some (NewRedirectOutput ''{channel: other}'')\<rparr>], None)"
  by (simp add: unknown_type_def processor_types_def processor_rename_def document_nodes_def
      doc_csv_rename_def rule_nodes_def rule_csv_rename_def converter_csv_def
      ListChannelRules_def Let_def Unmarshal_as_def outputter_types_def outputter_kafka_def
      redirect_stray_kafka_def doc_redirect_stray_kafka_def)

section \<open>Remote write backends that do not exist\<close>

text \<open>
  C3, as amended. The backend of a \<^verbatim>\<open>remoteWrite\<close> outputter node is looked up while the
  node is built, in the backend list of the document being loaded. When the uid matches no
  entry, the node fails to build with the error "unknown remote write backend uid" naming
  the uid, and a load of a document with the node in the tree of a rule (a child counting
  under the payload its parent's type selects) returns no rules: nil rules with an error,
  or a panic at an earlier node. The load stops at the first defective node in build order,
  so the error it returns is this one when no node ahead of it in build order has a defect
  of its own. When the uid matches an entry with settings, the built output holds those
  settings.
\<close>

theorem dangling_uid_fails_load:
  assumes "Unmarshal ruleBytes = Inr doc"
    and "f' = f\<lparr>remoteWriteBackends := RemoteWriteBackends doc\<rparr>"
    and "out_Type c = ''remoteWrite''"
    and "out_RemoteWriteOutputConfig c = Some rw"
  shows
    "(rw_UID rw \<notin> UID ` set (RemoteWriteBackends doc) \<longrightarrow>
        extractOutputter f' (Some c) = Inl (Err (UnknownRemoteWriteBackendUid (rw_UID rw))) \<and>
        (OutputterNode c \<in> set (document_nodes doc) \<longrightarrow>
           (\<exists>e. fst (ListChannelRules f Unmarshal ruleBytes) = Return ([], Some e)) \<or>
           (\<exists>p. fst (ListChannelRules f Unmarshal ruleBytes) = Panicked p)) \<and>
        (document_nodes doc = pre @ OutputterNode c # post \<and>
         (\<forall>m\<in>set pre. node_defect f' m = None) \<longrightarrow>
           fst (ListChannelRules f Unmarshal ruleBytes) =
             Return ([], Some (UnknownRemoteWriteBackendUid (rw_UID rw))))) \<and>
     (backend_of (RemoteWriteBackends doc) (rw_UID rw) = Some rwb \<and> Settings rwb = Some settings \<longrightarrow>
        extractOutputter f' (Some c) = Inr (Some (NewRemoteWriteOutput settings)))"
proof (intro conjI impI)
  assume "rw_UID rw \<notin> UID ` set (RemoteWriteBackends doc)"
  with assms(2) have "rw_UID rw \<notin> UID ` set (remoteWriteBackends f')" by simp
  note d = dangling_uid_defect [OF assms(3,4) this]
  from build_failure_first_defect [OF d]
  show "extractOutputter f' (Some c) = Inl (Err (UnknownRemoteWriteBackendUid (rw_UID rw)))"
    by (simp split: sum.splits)
  show "(\<exists>e. fst (ListChannelRules f Unmarshal ruleBytes) = Return ([], Some e)) \<or>
        (\<exists>p. fst (ListChannelRules f Unmarshal ruleBytes) = Panicked p)"
    if "OutputterNode c \<in> set (document_nodes doc)"
    by (rule load_visits_defect [where Unmarshal = Unmarshal and ruleBytes = ruleBytes,
          OF assms(1,2) that d])
  show "fst (ListChannelRules f Unmarshal ruleBytes) =
      Return ([], Some (UnknownRemoteWriteBackendUid (rw_UID rw)))"
    if "document_nodes doc = pre @ OutputterNode c # post \<and> (\<forall>m\<in>set pre. node_defect f' m = None)"
    using that
    by (intro load_first_defect [where Unmarshal = Unmarshal and ruleBytes = ruleBytes
          and pre = pre and post = post, OF assms(1,2) _ _ d]) simp_all
next
  assume "backend_of (RemoteWriteBackends doc) (rw_UID rw) = Some rwb \<and> Settings rwb = Some settings"
  with assms(2) have "backend_of (remoteWriteBackends f') (rw_UID rw) = Some rwb"
    and "Settings rwb = Some settings" by simp_all
  from resolved_uid_builds [OF assms(3,4) this]
  show "extractOutputter f' (Some c) = Inr (Some (NewRemoteWriteOutput settings))" .
qed

theorem dangling_uid_fails_load_witness:
  "''influx'' \<notin> UID ` set (RemoteWriteBackends doc_influx_dangling) \<and>
   OutputterNode remote_write_influx \<in> set (document_nodes doc_influx_dangling) \<and>
   fst (ListChannelRules storage0 (Unmarshal_as doc_influx_dangling) ''{...}'') =
     Return ([], Some (UnknownRemoteWriteBackendUid ''influx'')) \<and>
   extractOutputter storage_prod (Some remote_write_prod) =
     Inr (Some (NewRemoteWriteOutput ''{endpoint: prod}''))"
proof -
  let ?pre = "[OutputterNode managed_stream_bare, ConverterNode json_auto,
    OutputterNode multiple_managed_influx, OutputterNode managed_stream_bare]"
  have u: "Unmarshal_as doc_influx_dangling ''{...}'' = Inr doc_influx_dangling"
    by (simp add: Unmarshal_as_def)
  have s: "storage_prod = storage0\<lparr>remoteWriteBackends := RemoteWriteBackends doc_influx_dangling\<rparr>"
    by (simp add: storage0_def storage_prod_def doc_influx_dangling_def)
  have t: "out_Type remote_write_influx = ''remoteWrite''"
    and p: "out_RemoteWriteOutputConfig remote_write_influx = Some \<lparr>rw_UID = ''influx''\<rparr>"
    by (simp_all add: remote_write_influx_def)
  have t': "out_Type remote_write_prod = ''remoteWrite''"
    and p': "out_RemoteWriteOutputConfig remote_write_prod = Some \<lparr>rw_UID = ''prod''\<rparr>"
    by (simp_all add: remote_write_prod_def)
  have dangling: "rw_UID \<lparr>rw_UID = ''influx''\<rparr> \<notin> UID ` set (RemoteWriteBackends doc_influx_dangling)"
    by (simp add: doc_influx_dangling_def)
  have found: "backend_of (RemoteWriteBackends doc_influx_dangling) (rw_UID \<lparr>rw_UID = ''prod''\<rparr>) =
      Some \<lparr>UID = ''prod'', Settings = Some ''{endpoint: prod}''\<rparr> \<and>
      Settings \<lparr>UID = ''prod'', Settings = Some ''{endpoint: prod}''\<rparr> = Some ''{endpoint: prod}''"
    by (simp add: backend_of_def doc_influx_dangling_def)
  have leaf: "outputter_nodes managed_stream_bare = [OutputterNode managed_stream_bare]"
    "outputter_nodes remote_write_influx = [OutputterNode remote_write_influx]"
    by (simp_all add: managed_stream_bare_def remote_write_influx_def)
  have mul: "outputter_nodes multiple_managed_influx =
      OutputterNode multiple_managed_influx # outputter_nodes managed_stream_bare @
      outputter_nodes remote_write_influx"
    by (simp add: multiple_managed_influx_def)
  have nodes: "document_nodes doc_influx_dangling = ?pre @ OutputterNode remote_write_influx # []"
    by (simp add: document_nodes_def doc_influx_dangling_def rule_nodes_def rule_managed_def
        rule_managed_influx_def mul leaf)
  have ok: "node_defect storage_prod (OutputterNode managed_stream_bare) = None"
    "node_defect storage_prod (ConverterNode json_auto) = None"
    "node_defect storage_prod (OutputterNode multiple_managed_influx) = None"
    by (simp_all add: managed_stream_bare_def json_auto_def multiple_managed_influx_def
        converter_defect outputter_node_defect)
  from ok have pre: "\<forall>m\<in>set ?pre. node_defect storage_prod m = None" by simp
  from nodes have mem: "OutputterNode remote_write_influx \<in> set (document_nodes doc_influx_dangling)"
    by simp
  from dangling_uid_fails_load [where Unmarshal = "Unmarshal_as doc_influx_dangling"
      and ruleBytes = "''{...}''" and pre = ?pre and post = "[]", OF u s t p] dangling nodes pre
  have l: "fst (ListChannelRules storage0 (Unmarshal_as doc_influx_dangling) ''{...}'') =
      Return ([], Some (UnknownRemoteWriteBackendUid (rw_UID \<lparr>rw_UID = ''influx''\<rparr>)))"
    by blast
  from dangling_uid_fails_load [where Unmarshal = "Unmarshal_as doc_influx_dangling"
      and ruleBytes = "''{...}''", OF u s t' p'] found
  have b: "extractOutputter storage_prod (Some remote_write_prod) =
      Inr (Some (NewRemoteWriteOutput ''{endpoint: prod}''))"
    by blast
  from dangling mem l b show ?thesis by simp
qed

text \<open>
  C3 as stated fails where an earlier node is defective: the rule's converter has the unknown
  type \<^verbatim>\<open>csv\<close> and its \<^verbatim>\<open>remoteWrite\<close> outputter names the uid \<^verbatim>\<open>influx\<close>, which no
  backend has; the load returns the converter's error, not an unknown-uid error. It fails
  too for a \<^verbatim>\<open>remoteWrite\<close> node under a payload that its parent's type does not select:
  the load returns the rule of the \<^verbatim>\<open>redirect\<close> outputter that carries it.
\<close>

theorem dangling_uid_behind_defect_counterexample:
  "out_Type remote_write_influx = ''remoteWrite'' \<and>
   out_RemoteWriteOutputConfig remote_write_influx = Some \<lparr>rw_UID = ''influx''\<rparr> \<and>
   ''influx'' \<notin> UID ` set (RemoteWriteBackends doc_csv_influx) \<and>
   OutputterNode remote_write_influx \<in> set (document_nodes doc_csv_influx) \<and>
   fst (ListChannelRules storage0 (Unmarshal_as doc_csv_influx) ''{...}'') =
     Return ([], Some (UnknownConverterType ''csv'')) \<and>
   Error_text (UnknownConverterType ''csv'') = ''unknown converter type: csv'' \<and>
   ''influx'' \<notin> UID ` set (RemoteWriteBackends doc_redirect_stray_influx) \<and>
   out_MultipleOutputterConfig redirect_stray_influx =
     Some (MultipleOutputterConfig [remote_write_influx]) \<and>
   fst (ListChannelRules storage0 (Unmarshal_as doc_redirect_stray_influx) ''{...}'') =
     Return ([\<lparr>Pattern = ''stream/redirect/*'', Converter = None, Processor = None,
               Outputter = Some (NewRedirectOutput ''{channel: other}'')\<rparr>], None)"
  by (simp add: remote_write_influx_def document_nodes_def doc_csv_influx_def rule_nodes_def
      rule_csv_influx_def converter_csv_def ListChannelRules_def Let_def Unmarshal_as_def
      redirect_stray_influx_def doc_redirect_stray_influx_def)

end
